theory Spec2Isabelle
  imports Main "HOL-Library.Word"
begin

unbundle bit_operations_syntax

section \<open>Package plan: the logical plan tree and the cartesian guard\<close>

text \<open>
  The join types the optimizer names are \<open>InnerJoin\<close>, \<open>LeftOuterJoin\<close> and
  \<open>RightOuterJoin\<close>; \<open>SemiJoin\<close> is the further type the specification names, and
  every other value of the Go enumeration is \<open>OtherJoinType n\<close>.
\<close>

datatype JoinType = InnerJoin | LeftOuterJoin | RightOuterJoin | SemiJoin | OtherJoinType nat

text \<open>
  A \<open>LogicalPlan\<close> is a tree of operators. \<open>existsCartesianProduct\<close> reads three things of
  a node: whether it is a \<open>*LogicalJoin\<close>, and then its \<open>JoinType\<close> and its
  \<open>EqualConditions\<close>; and its \<open>Children()\<close>. Every operator that is not a join is
  \<open>LogicalOperator\<close> with a payload \<open>'o\<close>; \<open>'c\<close> is the type of an equality condition.
\<close>

datatype ('c, 'o) LogicalPlan =
    LogicalJoin JoinType "'c list" "('c, 'o) LogicalPlan list"
  | LogicalOperator 'o "('c, 'o) LogicalPlan list"

fun Children :: "('c, 'o) LogicalPlan \<Rightarrow> ('c, 'o) LogicalPlan list" where
  "Children (LogicalJoin jt eqs cs) = cs"
| "Children (LogicalOperator op cs) = cs"

text \<open>
  \<open>existsCartesianProduct\<close>: a join with no equality condition answers at once with the
  test on its type; every other node asks its children in order and stops at the first
  that answers true (\<open>existsCartesianProduct_children\<close> is the \<open>for ... range\<close> loop).
\<close>

fun existsCartesianProduct :: "('c, 'o) LogicalPlan \<Rightarrow> bool"
  and existsCartesianProduct_children :: "('c, 'o) LogicalPlan list \<Rightarrow> bool" where
  "existsCartesianProduct (LogicalJoin jt eqs cs) =
     (if length eqs = 0
      then jt = InnerJoin \<or> jt = LeftOuterJoin \<or> jt = RightOuterJoin
      else existsCartesianProduct_children cs)"
| "existsCartesianProduct (LogicalOperator op cs) = existsCartesianProduct_children cs"
| "existsCartesianProduct_children [] = False"
| "existsCartesianProduct_children (child # rest) =
     (if existsCartesianProduct child then True else existsCartesianProduct_children rest)"

text \<open>
  The specification's reading of the guard: a cartesian join is a join node with zero
  equality conditions and type inner, left outer or right outer; \<open>planNodes\<close> lists every
  node of a tree (pre-order), and \<open>containsCartesianJoin\<close> says that one of them is a
  cartesian join.
\<close>

fun isCartesianJoin :: "('c, 'o) LogicalPlan \<Rightarrow> bool" where
  "isCartesianJoin (LogicalJoin jt eqs cs) =
     (length eqs = 0 \<and> (jt = InnerJoin \<or> jt = LeftOuterJoin \<or> jt = RightOuterJoin))"
| "isCartesianJoin (LogicalOperator op cs) = False"

fun planNodes :: "('c, 'o) LogicalPlan \<Rightarrow> ('c, 'o) LogicalPlan list"
  and planNodes_children :: "('c, 'o) LogicalPlan list \<Rightarrow> ('c, 'o) LogicalPlan list" where
  "planNodes (LogicalJoin jt eqs cs) = LogicalJoin jt eqs cs # planNodes_children cs"
| "planNodes (LogicalOperator op cs) = LogicalOperator op cs # planNodes_children cs"
| "planNodes_children [] = []"
| "planNodes_children (child # rest) = planNodes child @ planNodes_children rest"

definition containsCartesianJoin :: "('c, 'o) LogicalPlan \<Rightarrow> bool" where
  "containsCartesianJoin p = list_ex isCartesianJoin (planNodes p)"

text \<open>
  The nodes the guard does examine: it stops below a join without equality conditions.
\<close>

fun examinedNodes :: "('c, 'o) LogicalPlan \<Rightarrow> ('c, 'o) LogicalPlan list"
  and examinedNodes_children :: "('c, 'o) LogicalPlan list \<Rightarrow> ('c, 'o) LogicalPlan list" where
  "examinedNodes (LogicalJoin jt eqs cs) =
     LogicalJoin jt eqs cs # (if length eqs = 0 then [] else examinedNodes_children cs)"
| "examinedNodes (LogicalOperator op cs) = LogicalOperator op cs # examinedNodes_children cs"
| "examinedNodes_children [] = []"
| "examinedNodes_children (child # rest) = examinedNodes child @ examinedNodes_children rest"

text \<open>
  A semi-join without equality conditions (as a correlated \<open>EXISTS\<close> with only a
  non-equality condition gives) over a table and an inner join of two tables that has no
  condition at all.
\<close>

definition maskedCartesianPlan :: "(unit, string) LogicalPlan" where
  "maskedCartesianPlan =
     LogicalJoin SemiJoin []
       [LogicalOperator ''DataSource t'' [],
        LogicalJoin InnerJoin []
          [LogicalOperator ''DataSource a'' [], LogicalOperator ''DataSource b'' []]]"

section \<open>Package plan: the rule catalog and the rule pipeline\<close>

text \<open>
  The flags are \<open>1 << iota\<close> on \<open>uint64\<close>, in the order of the constant block.
\<close>

definition flagPrunColumns :: "64 word" where
  "flagPrunColumns = push_bit 0 1"

definition flagEliminateProjection :: "64 word" where
  "flagEliminateProjection = push_bit 1 1"

definition flagBuildKeyInfo :: "64 word" where
  "flagBuildKeyInfo = push_bit 2 1"

definition flagDecorrelate :: "64 word" where
  "flagDecorrelate = push_bit 3 1"

definition flagMaxMinEliminate :: "64 word" where
  "flagMaxMinEliminate = push_bit 4 1"

definition flagPredicatePushDown :: "64 word" where
  "flagPredicatePushDown = push_bit 5 1"

definition flagAggregationOptimize :: "64 word" where
  "flagAggregationOptimize = push_bit 6 1"

definition flagPushDownTopN :: "64 word" where
  "flagPushDownTopN = push_bit 7 1"

text \<open>
  The eight rules of \<open>optRuleList\<close>, named after the Go types whose pointers the list
  holds, in the order of the list.
\<close>

datatype logicalOptRule =
    columnPruner
  | projectionEliminater
  | buildKeySolver
  | decorrelateSolver
  | maxMinEliminator
  | ppdSolver
  | aggregationOptimizer
  | pushDownTopNOptimizer

definition optRuleList :: "logicalOptRule list" where
  "optRuleList =
     [columnPruner, projectionEliminater, buildKeySolver, decorrelateSolver,
      maxMinEliminator, ppdSolver, aggregationOptimizer, pushDownTopNOptimizer]"

text \<open>
  The calls the optimizer makes into code that is not its own are recorded, in order, in
  a log; the log is the second component of the world a function runs in. The first
  component is the state those calls read and change (the session context, the mutable
  plan objects): a callee gets it and gives it back.
\<close>

datatype event =
    Call_build
  | Call_optimize logicalOptRule
  | Call_preparePossibleProperties
  | Call_deriveStats
  | Call_findBestTask
  | Call_ResolveIndices
  | Call_eliminatePhysicalProjection
  | Call_optimizePreparedPlan

type_synonym 'u world = "'u \<times> event list"

text \<open>
  A value of a Go interface type is \<open>None\<close> when it is \<open>nil\<close>; a Go function returning
  \<open>(T, error)\<close> returns a pair of options. \<open>errors.Trace\<close> annotates an error with the
  place of the call and keeps its cause (and keeps \<open>nil\<close>); errors are modelled by their
  causes, so \<open>errors.Trace\<close> is the identity here.

  \<open>optimize\<close> is the method of the interface \<open>logicalOptRule\<close>: for each rule, a function
  from the plan and the state to the pair \<open>(LogicalPlan, error)\<close> and the state.
\<close>

type_synonym ('p, 'e, 'u) rule_method =
  "logicalOptRule \<Rightarrow> 'p option \<Rightarrow> 'u \<Rightarrow> ('p option \<times> 'e option) \<times> 'u"

text \<open>
  \<open>logicalOptimize\<close>: \<open>logicalOptimize_range\<close> is the loop \<open>for i, rule := range optRuleList\<close>
  from index \<open>i\<close> over the rules left, with the variables \<open>logic\<close> and \<open>err\<close>; at the end
  of the list it is the final \<open>return logic, errors.Trace(err)\<close>.
\<close>

fun logicalOptimize_range ::
  "('p, 'e, 'u) rule_method \<Rightarrow> 64 word \<Rightarrow> nat \<Rightarrow> logicalOptRule list \<Rightarrow>
   'p option \<Rightarrow> 'e option \<Rightarrow> 'u world \<Rightarrow> ('p option \<times> 'e option) \<times> 'u world" where
  "logicalOptimize_range optimize flag i [] logic err w = ((logic, err), w)"
| "logicalOptimize_range optimize flag i (rule # rest) logic err w =
     (if flag AND push_bit i 1 = 0
      then logicalOptimize_range optimize flag (Suc i) rest logic err w
      else (case optimize rule logic (fst w) of
              ((logic', err'), u') \<Rightarrow>
                (if err' \<noteq> None
                 then ((None, err'), (u', snd w @ [Call_optimize rule]))
                 else logicalOptimize_range optimize flag (Suc i) rest logic' err'
                        (u', snd w @ [Call_optimize rule]))))"

definition logicalOptimize ::
  "('p, 'e, 'u) rule_method \<Rightarrow> 64 word \<Rightarrow> 'p option \<Rightarrow> 'u world \<Rightarrow>
   ('p option \<times> 'e option) \<times> 'u world" where
  "logicalOptimize optimize flag logic w =
     logicalOptimize_range optimize flag 0 optRuleList logic None w"

text \<open>
  The specification's reading of the pipeline. \<open>selectedRules flag\<close> is the catalog
  restricted to the rules whose bit is set, in catalog order. \<open>applyInOrder\<close> applies a
  list of rules in order, each to the plan the one before produced, and stops at the
  first that fails, returning no plan and that rule's error.
\<close>

definition selectedRules :: "64 word \<Rightarrow> logicalOptRule list" where
  "selectedRules flag = map snd (filter (\<lambda>kr. bit flag (fst kr)) (enumerate 0 optRuleList))"

fun applyInOrder ::
  "('p, 'e, 'u) rule_method \<Rightarrow> logicalOptRule list \<Rightarrow> 'p option \<Rightarrow> 'u world \<Rightarrow>
   ('p option \<times> 'e option) \<times> 'u world" where
  "applyInOrder optimize [] logic w = ((logic, None), w)"
| "applyInOrder optimize (rule # rest) logic w =
     (case optimize rule logic (fst w) of
        ((logic', Some e), u') \<Rightarrow> ((None, Some e), (u', snd w @ [Call_optimize rule]))
      | ((logic', None), u') \<Rightarrow>
          applyInOrder optimize rest logic' (u', snd w @ [Call_optimize rule]))"

section \<open>Package plan: the driver\<close>

text \<open>
  The errors of the package, by cause: the two error values the optimizer names, the
  error \<open>errors.New\<close> makes from a message, and \<open>External x\<close> for an error that comes
  from a callee. \<open>ErrInternal.GenByArgs(msg)\<close> is \<open>ErrInternal msg\<close>.
\<close>

datatype 'x error =
    ErrCartesianProductUnsupported
  | ErrInternal string
  | errors_New string
  | External 'x

text \<open>
  What a Go function does: it returns its pair, or it panics (a method call on a \<open>nil\<close>
  interface value).
\<close>

datatype ('a, 'e) outcome = Return "'a option" "'e option" | Panic

text \<open>
  A \<open>Plan\<close> is a logical plan (the type assertion \<open>p.(LogicalPlan)\<close> succeeds), a physical
  plan, an \<open>*Execute\<close> (the assertion \<open>p.(*Execute)\<close> succeeds), or any other plan.
\<close>

datatype ('c, 'o, 'pp, 'ex, 'q) Plan =
    Logical "('c, 'o) LogicalPlan"
  | Physical 'pp
  | Execute 'ex
  | OtherPlan 'q

record visitInfo =
  privilege :: "32 word"
  db :: string
  table :: string
  column :: string

text \<open>
  The session variables hold \<open>PlanID\<close>; the state the callees work on is any record
  that extends them.
\<close>

record SessionVars =
  PlanID :: int

text \<open>
  The fields of \<open>planBuilder\<close> that \<open>Optimize\<close> reads after \<open>build\<close> has run.
\<close>

record 'x planBuilder =
  builder_err :: "'x error option"
  builder_visitInfo :: "visitInfo list"
  builder_optFlag :: "64 word"

datatype taskType = rootTaskType | otherTaskType nat

datatype float64 = MaxFloat64 | otherFloat64 nat

record requiredProp =
  taskTp :: taskType
  expectedCnt :: float64

text \<open>
  \<open>privilege.Manager\<close> is read through its one method \<open>RequestVerification(db, table,
  column, privilege)\<close>, a decision that changes nothing.
\<close>

type_synonym Manager = "string \<Rightarrow> string \<Rightarrow> string \<Rightarrow> 32 word \<Rightarrow> bool"

text \<open>
  The functions and methods the optimizer calls and this file does not define, as a
  record of functions. A method that changes its receiver returns the receiver after the
  change next to the state. \<open>deriveStats\<close> returns its error only: the optimizer drops the
  statistics (\<open>_, err := logic.deriveStats()\<close>).
\<close>

record ('n, 'c, 'o, 'x, 't, 'pp, 'ex, 'q, 'u) callees =
  build :: "'n \<Rightarrow> 'u \<Rightarrow> (('c, 'o, 'pp, 'ex, 'q) Plan option \<times> 'x planBuilder) \<times> 'u"
  GetPrivilegeManager :: "'u \<Rightarrow> Manager option"
  optimize :: "(('c, 'o) LogicalPlan, 'x error, 'u) rule_method"
  preparePossibleProperties :: "('c, 'o) LogicalPlan \<Rightarrow> 'u \<Rightarrow> ('c, 'o) LogicalPlan \<times> 'u"
  deriveStats :: "('c, 'o) LogicalPlan \<Rightarrow> 'u \<Rightarrow> (('c, 'o) LogicalPlan \<times> 'x error option) \<times> 'u"
  findBestTask ::
    "('c, 'o) LogicalPlan \<Rightarrow> requiredProp \<Rightarrow> 'u \<Rightarrow> ('t \<times> 'x error option) \<times> 'u"
  invalid :: "'t \<Rightarrow> bool"
  plan :: "'t \<Rightarrow> 'pp option"
  ResolveIndices :: "'pp \<Rightarrow> 'u \<Rightarrow> 'pp \<times> 'u"
  eliminatePhysicalProjection :: "'pp option \<Rightarrow> 'u \<Rightarrow> 'pp option \<times> 'u"
  optimizePreparedPlan :: "'ex \<Rightarrow> 'u \<Rightarrow> ('ex \<times> 'x error option) \<times> 'u"

text \<open>
  \<open>physicalOptimize\<close>. On a \<open>nil\<close> plan the first method call panics, and so does
  \<open>p.ResolveIndices()\<close> on a \<open>nil\<close> plan of the task.
\<close>

definition noPhysicalPlanMessage :: string where
  "noPhysicalPlanMessage =
     ''Can'' @ [CHR 0x27] @ ''t find a proper physical plan for this query''"

fun physicalOptimize ::
  "('n, 'c, 'o, 'x, 't, 'pp, 'ex, 'q, 'u) callees \<Rightarrow> ('c, 'o) LogicalPlan option \<Rightarrow>
   'u world \<Rightarrow> ('pp, 'x error) outcome \<times> 'u world" where
  "physicalOptimize cs None w = (Panic, w)"
| "physicalOptimize cs (Some logic) w =
     (case preparePossibleProperties cs logic (fst w) of
        (logic1, u1) \<Rightarrow>
     (case deriveStats cs logic1 u1 of
        ((logic2, err), u2) \<Rightarrow>
          (if err \<noteq> None
           then (Return None err,
                 (u2, snd w @ [Call_preparePossibleProperties, Call_deriveStats]))
           else
     (case findBestTask cs logic2 \<lparr>taskTp = rootTaskType, expectedCnt = MaxFloat64\<rparr> u2 of
        ((t, err), u3) \<Rightarrow>
          (if err \<noteq> None
           then (Return None err,
                 (u3, snd w @ [Call_preparePossibleProperties, Call_deriveStats,
                               Call_findBestTask]))
           else if invalid cs t
           then (Return None (Some (ErrInternal noPhysicalPlanMessage)),
                 (u3, snd w @ [Call_preparePossibleProperties, Call_deriveStats,
                               Call_findBestTask]))
           else
     (case plan cs t of
        None \<Rightarrow>
          (Panic, (u3, snd w @ [Call_preparePossibleProperties, Call_deriveStats,
                                Call_findBestTask]))
      | Some p \<Rightarrow>
     (case ResolveIndices cs p u3 of
        (p', u4) \<Rightarrow>
          (Return (Some p') None,
           (u4, snd w @ [Call_preparePossibleProperties, Call_deriveStats,
                         Call_findBestTask, Call_ResolveIndices])))))))))"

text \<open>
  \<open>doOptimize\<close>; the package variable \<open>AllowCartesianProduct\<close> is its first argument.
  When \<open>logicalOptimize\<close> returns neither a plan nor an error, the next method call on
  the plan panics: \<open>p.Children()\<close> in the guard, or \<open>preparePossibleProperties\<close>.
\<close>

definition doOptimize ::
  "bool \<Rightarrow> ('n, 'c, 'o, 'x, 't, 'pp, 'ex, 'q, 'u) callees \<Rightarrow> 64 word \<Rightarrow>
   ('c, 'o) LogicalPlan option \<Rightarrow> 'u world \<Rightarrow> ('pp, 'x error) outcome \<times> 'u world" where
  "doOptimize AllowCartesianProduct cs flag logic w =
     (case logicalOptimize (optimize cs) flag logic w of
        ((logic1, err), w1) \<Rightarrow>
          (if err \<noteq> None then (Return None err, w1)
           else
     (case logic1 of
        None \<Rightarrow> (Panic, w1)
      | Some l \<Rightarrow>
          (if \<not> AllowCartesianProduct \<and> existsCartesianProduct l
           then (Return None (Some ErrCartesianProductUnsupported), w1)
           else
     (case physicalOptimize cs (Some l) w1 of
        (Panic, w2) \<Rightarrow> (Panic, w2)
      | (Return physical err, w2) \<Rightarrow>
          (if err \<noteq> None then (Return None err, w2)
           else
     (case eliminatePhysicalProjection cs physical (fst w2) of
        (finalPlan, u3) \<Rightarrow>
          (Return finalPlan None, (u3, snd w2 @ [Call_eliminatePhysicalProjection])))))))))"

text \<open>
  \<open>checkPrivilege\<close>: the loop over the visit records, leaving at the first that is refused.
\<close>

fun checkPrivilege :: "Manager \<Rightarrow> visitInfo list \<Rightarrow> bool" where
  "checkPrivilege pm [] = True"
| "checkPrivilege pm (v # vs) =
     (if \<not> pm (db v) (table v) (column v) (privilege v) then False
      else checkPrivilege pm vs)"

text \<open>
  \<open>Optimize\<close>. Its result is a \<open>Plan\<close>: the physical plan of \<open>doOptimize\<close>, or the plan of
  the builder itself.
\<close>

fun asPlan :: "('pp, 'e) outcome \<Rightarrow> (('c, 'o, 'pp, 'ex, 'q) Plan, 'e) outcome" where
  "asPlan Panic = Panic"
| "asPlan (Return p err) = Return (map_option Physical p) err"

definition Optimize ::
  "bool \<Rightarrow> ('n, 'c, 'o, 'x, 't, 'pp, 'ex, 'q, 'a SessionVars_scheme) callees \<Rightarrow> 'n \<Rightarrow>
   'a SessionVars_scheme world \<Rightarrow>
   (('c, 'o, 'pp, 'ex, 'q) Plan, 'x error) outcome \<times> 'a SessionVars_scheme world" where
  "Optimize AllowCartesianProduct cs node w =
     (case build cs node ((fst w)\<lparr>PlanID := 0\<rparr>) of
        ((p, builder), u1) \<Rightarrow>
          (if builder_err builder \<noteq> None
           then (Return None (builder_err builder), (u1, snd w @ [Call_build]))
           else if (case GetPrivilegeManager cs u1 of
                      None \<Rightarrow> False
                    | Some pm \<Rightarrow> \<not> checkPrivilege pm (builder_visitInfo builder))
           then (Return None (Some (errors_New ''privilege check fail'')),
                 (u1, snd w @ [Call_build]))
           else
     (case p of
        Some (Logical logic) \<Rightarrow>
          (case doOptimize AllowCartesianProduct cs (builder_optFlag builder) (Some logic)
                  (u1, snd w @ [Call_build]) of
             (r, w2) \<Rightarrow> (asPlan r, w2))
      | Some (Execute execPlan) \<Rightarrow>
          (case optimizePreparedPlan cs execPlan u1 of
             ((execPlan', err), u2) \<Rightarrow>
               (Return (Some (Execute execPlan')) err,
                (u2, snd w @ [Call_build, Call_optimizePreparedPlan])))
      | _ \<Rightarrow> (Return p None, (u1, snd w @ [Call_build])))))"

text \<open>\<open>BuildLogicalPlan\<close>.\<close>

definition BuildLogicalPlan ::
  "('n, 'c, 'o, 'x, 't, 'pp, 'ex, 'q, 'a SessionVars_scheme) callees \<Rightarrow> 'n \<Rightarrow>
   'a SessionVars_scheme world \<Rightarrow>
   (('c, 'o, 'pp, 'ex, 'q) Plan, 'x error) outcome \<times> 'a SessionVars_scheme world" where
  "BuildLogicalPlan cs node w =
     (case build cs node ((fst w)\<lparr>PlanID := 0\<rparr>) of
        ((p, builder), u1) \<Rightarrow>
          (if builder_err builder \<noteq> None
           then (Return None (builder_err builder), (u1, snd w @ [Call_build]))
           else (Return p None, (u1, snd w @ [Call_build]))))"

section \<open>Package kv: the memory buffer and the buffer store\<close>

text \<open>
  A \<open>Key\<close> and a value are byte slices; the code reads of a value only its length and
  its bytes, so the \<open>nil\<close> slice and the empty slice are both \<open>[]\<close>.
\<close>

type_synonym Key = "8 word list"

type_synonym bytes = "8 word list"

text \<open>
  The errors of the package, by cause. \<open>ErrEntryTooLarge.Gen(format, n)\<close> and
  \<open>ErrTxnTooLarge.Gen(format, n)\<close> keep the format and its argument; \<open>kv_External x\<close> is
  an error that comes from a callee.
\<close>

datatype 'x kv_error =
    ErrNotExist
  | ErrCannotSetNilValue
  | ErrEntryTooLarge string int
  | ErrTxnTooLarge string int
  | kv_External 'x

text \<open>
  \<open>memdb.DB\<close> belongs to the goleveldb library; the buffer uses four of its methods.
  They are taken as a record of functions over any type \<open>'d\<close> of databases, \<open>db_Put\<close>
  returning the database after the write. \<open>isErrNotFound err\<close> is the test
  \<open>terror.ErrorEqual(err, leveldb.ErrNotFound)\<close>.
\<close>

record ('d, 'x) memdb =
  db_Put :: "'d \<Rightarrow> Key \<Rightarrow> bytes \<Rightarrow> 'x option \<times> 'd"
  db_Get :: "'d \<Rightarrow> Key \<Rightarrow> bytes \<times> 'x option"
  db_Size :: "'d \<Rightarrow> int"
  db_Len :: "'d \<Rightarrow> int"
  isErrNotFound :: "'x option \<Rightarrow> bool"

record 'd memDbBuffer =
  db :: 'd
  entrySizeLimit :: int
  bufferLenLimit :: "64 word"
  bufferSizeLimit :: int

definition memDbBuffer_Get ::
  "('d, 'x) memdb \<Rightarrow> 'd memDbBuffer \<Rightarrow> Key \<Rightarrow> bytes \<times> 'x kv_error option" where
  "memDbBuffer_Get lib m k =
     (case db_Get lib (db m) k of
        (v, err) \<Rightarrow> if isErrNotFound lib err then ([], Some ErrNotExist) else (v, None))"

definition memDbBuffer_Size :: "('d, 'x) memdb \<Rightarrow> 'd memDbBuffer \<Rightarrow> int" where
  "memDbBuffer_Size lib m = db_Size lib (db m)"

definition memDbBuffer_Len :: "('d, 'x) memdb \<Rightarrow> 'd memDbBuffer \<Rightarrow> int" where
  "memDbBuffer_Len lib m = db_Len lib (db m)"

text \<open>
  \<open>Set\<close> returns its error and the buffer after the call. \<open>int(m.bufferLenLimit)\<close>
  converts a \<open>uint64\<close> to the signed 64-bit \<open>int\<close>.
\<close>

definition memDbBuffer_Set ::
  "('d, 'x) memdb \<Rightarrow> 'd memDbBuffer \<Rightarrow> Key \<Rightarrow> bytes \<Rightarrow> 'x kv_error option \<times> 'd memDbBuffer" where
  "memDbBuffer_Set lib m k v =
     (if length v = 0 then (Some ErrCannotSetNilValue, m)
      else if int (length k) + int (length v) > entrySizeLimit m
      then (Some (ErrEntryTooLarge ''entry too large, size: %d''
                    (int (length k) + int (length v))), m)
      else (case db_Put lib (db m) k v of
              (err, d') \<Rightarrow>
                (if memDbBuffer_Size lib (m\<lparr>db := d'\<rparr>) > bufferSizeLimit m
                 then (Some (ErrTxnTooLarge ''transaction too large, size:%d''
                               (memDbBuffer_Size lib (m\<lparr>db := d'\<rparr>))), m\<lparr>db := d'\<rparr>)
                 else if memDbBuffer_Len lib (m\<lparr>db := d'\<rparr>) > sint (bufferLenLimit m)
                 then (Some (ErrTxnTooLarge ''transaction too large, len:%d''
                               (memDbBuffer_Len lib (m\<lparr>db := d'\<rparr>))), m\<lparr>db := d'\<rparr>)
                 else (map_option kv_External err, m\<lparr>db := d'\<rparr>))))"

definition memDbBuffer_Delete ::
  "('d, 'x) memdb \<Rightarrow> 'd memDbBuffer \<Rightarrow> Key \<Rightarrow> 'x kv_error option \<times> 'd memDbBuffer" where
  "memDbBuffer_Delete lib m k =
     (case db_Put lib (db m) k [] of
        (err, d') \<Rightarrow> (map_option kv_External err, m\<lparr>db := d'\<rparr>))"

text \<open>
  \<open>BufferStore\<close> embeds a \<open>MemBuffer\<close> and holds a \<open>Retriever\<close> \<open>r\<close>, both interfaces.
  \<open>kv_methods\<close> gives the \<open>Get\<close> method of each, and the function \<open>IsErrNotFound\<close> of
  the package. The calls to the two \<open>Get\<close> methods are recorded in a log.
\<close>

record ('mb, 'rt) BufferStore =
  MemBuffer :: 'mb
  r :: 'rt

record ('mb, 'rt, 'x) kv_methods =
  MemBuffer_Get :: "'mb \<Rightarrow> Key \<Rightarrow> bytes \<times> 'x kv_error option"
  Retriever_Get :: "'rt \<Rightarrow> Key \<Rightarrow> bytes \<times> 'x kv_error option"
  IsErrNotFound :: "'x kv_error option \<Rightarrow> bool"

datatype kv_event = Call_MemBuffer_Get Key | Call_Retriever_Get Key

definition BufferStore_Get ::
  "('mb, 'rt, 'x) kv_methods \<Rightarrow> ('mb, 'rt) BufferStore \<Rightarrow> Key \<Rightarrow> kv_event list \<Rightarrow>
   (bytes \<times> 'x kv_error option) \<times> kv_event list" where
  "BufferStore_Get ms s k log =
     (case MemBuffer_Get ms (MemBuffer s) k of
        (val, err) \<Rightarrow>
     (case (if IsErrNotFound ms err
            then (Retriever_Get ms (r s) k, log @ [Call_MemBuffer_Get k, Call_Retriever_Get k])
            else ((val, err), log @ [Call_MemBuffer_Get k])) of
        ((val, err), log') \<Rightarrow>
          (if err \<noteq> None then (([], err), log')
           else if length val = 0 then (([], Some ErrNotExist), log')
           else ((val, None), log'))))"

section \<open>Concrete callees, for running the definitions\<close>

text \<open>
  A builder that returns what its node holds; rules that wrap the plan in an operator
  carrying the rule's name and count themselves in \<open>PlanID\<close>, except the rules of the
  list \<open>failing\<close>, which return an error; a planner that realises a logical plan as
  itself and finds no task for the operator \<open>''Unsupported''\<close>.
\<close>

fun ruleName :: "logicalOptRule \<Rightarrow> string" where
  "ruleName columnPruner = ''columnPruner''"
| "ruleName projectionEliminater = ''projectionEliminater''"
| "ruleName buildKeySolver = ''buildKeySolver''"
| "ruleName decorrelateSolver = ''decorrelateSolver''"
| "ruleName maxMinEliminator = ''maxMinEliminator''"
| "ruleName ppdSolver = ''ppdSolver''"
| "ruleName aggregationOptimizer = ''aggregationOptimizer''"
| "ruleName pushDownTopNOptimizer = ''pushDownTopNOptimizer''"

definition exampleRules ::
  "logicalOptRule list \<Rightarrow> ((unit, string) LogicalPlan, string error, SessionVars) rule_method" where
  "exampleRules failing rule logic u =
     (if rule \<in> set failing
      then ((None, Some (External (ruleName rule))), u\<lparr>PlanID := PlanID u + 1\<rparr>)
      else ((map_option (\<lambda>p. LogicalOperator (ruleName rule) [p]) logic, None),
            u\<lparr>PlanID := PlanID u + 1\<rparr>))"

type_synonym exampleNode =
  "((unit, string, (unit, string) LogicalPlan, unit, unit) Plan option \<times> string planBuilder)"

definition exampleCallees ::
  "Manager option \<Rightarrow> logicalOptRule list \<Rightarrow>
   (exampleNode, unit, string, string, (unit, string) LogicalPlan option,
    (unit, string) LogicalPlan, unit, unit, SessionVars) callees" where
  "exampleCallees pm failing =
     \<lparr>build = (\<lambda>node u. (node, u)),
      GetPrivilegeManager = (\<lambda>u. pm),
      optimize = exampleRules failing,
      preparePossibleProperties = (\<lambda>logic u. (logic, u)),
      deriveStats = (\<lambda>logic u. ((logic, None), u)),
      findBestTask = (\<lambda>logic prop u.
         ((if logic = LogicalOperator ''Unsupported'' [] then None else Some logic, None), u)),
      invalid = (\<lambda>t. t = None),
      plan = (\<lambda>t. t),
      ResolveIndices = (\<lambda>p u. (p, u)),
      eliminatePhysicalProjection = (\<lambda>p u. (p, u)),
      optimizePreparedPlan = (\<lambda>e u. ((e, None), u))\<rparr>"

definition exampleManager :: Manager where
  "exampleManager d t c p = (t \<noteq> ''T'')"

definition exampleWorld :: "SessionVars world" where
  "exampleWorld = (\<lparr>PlanID = 7\<rparr>, [])"

text \<open>
  A database that is a list of pairs, newest first, one pair for a key.
\<close>

datatype leveldb_error = ErrNotFound

definition exampleDb :: "((Key \<times> bytes) list, leveldb_error) memdb" where
  "exampleDb =
     \<lparr>db_Put = (\<lambda>d k v. (None, (k, v) # filter (\<lambda>kv. fst kv \<noteq> k) d)),
      db_Get = (\<lambda>d k. case map_of d k of None \<Rightarrow> ([], Some ErrNotFound) | Some v \<Rightarrow> (v, None)),
      db_Size = (\<lambda>d. sum_list (map (\<lambda>kv. int (length (fst kv)) + int (length (snd kv))) d)),
      db_Len = (\<lambda>d. int (length d)),
      isErrNotFound = (\<lambda>err. err = Some ErrNotFound)\<rparr>"

definition exampleBuffer :: "(Key \<times> bytes) list memDbBuffer" where
  "exampleBuffer =
     \<lparr>db = [([1], [10])], entrySizeLimit = 6291456, bufferLenLimit = 300000,
      bufferSizeLimit = 104857600\<rparr>"

definition exampleMethods ::
  "((Key \<times> bytes) list memDbBuffer, Key \<Rightarrow> bytes option, leveldb_error) kv_methods" where
  "exampleMethods =
     \<lparr>MemBuffer_Get = memDbBuffer_Get exampleDb,
      Retriever_Get = (\<lambda>snapshot k.
         case snapshot k of None \<Rightarrow> ([], Some ErrNotExist) | Some v \<Rightarrow> (v, None)),
      IsErrNotFound = (\<lambda>err. err = Some ErrNotExist)\<rparr>"

definition examplePlan :: "(unit, string) LogicalPlan" where
  "examplePlan = LogicalOperator ''DataSource t'' []"

text \<open>
  Nodes for the builder: a query on table \<open>T\<close> of database \<open>test\<close>, a query that reads
  table \<open>S\<close> and column \<open>price\<close> of table \<open>T\<close> of database \<open>sales\<close>, and a query on
  table \<open>S\<close> alone; \<open>exampleManager\<close> refuses every request on a table \<open>T\<close>.
\<close>

definition visitTestT :: visitInfo where
  "visitTestT =
     \<lparr>privilege = 4, visitInfo.db = ''test'', table = ''T'', column = ''id''\<rparr>"

definition visitSalesPrice :: visitInfo where
  "visitSalesPrice =
     \<lparr>privilege = 2, visitInfo.db = ''sales'', table = ''T'', column = ''price''\<rparr>"

definition visitSalesS :: visitInfo where
  "visitSalesS =
     \<lparr>privilege = 4, visitInfo.db = ''sales'', table = ''S'', column = ''id''\<rparr>"

definition nodeTestT :: exampleNode where
  "nodeTestT =
     (Some (Logical examplePlan),
      \<lparr>builder_err = None, builder_visitInfo = [visitTestT], builder_optFlag = 137\<rparr>)"

definition nodeSalesPrice :: exampleNode where
  "nodeSalesPrice =
     (Some (Logical examplePlan),
      \<lparr>builder_err = None, builder_visitInfo = [visitSalesS, visitSalesPrice],
       builder_optFlag = 137\<rparr>)"

definition nodeSalesS :: exampleNode where
  "nodeSalesS =
     (Some (Logical examplePlan),
      \<lparr>builder_err = None, builder_visitInfo = [visitSalesS], builder_optFlag = 137\<rparr>)"

definition nodeBroken :: exampleNode where
  "nodeBroken =
     (None,
      \<lparr>builder_err = Some (External ''unknown column''), builder_visitInfo = [],
       builder_optFlag = 0\<rparr>)"

text \<open>
  A buffer store over \<open>exampleBuffer\<close> after key \<open>[1]\<close> was deleted from it, reading
  from a snapshot that holds the keys \<open>[1]\<close> and \<open>[2]\<close>.
\<close>

definition exampleStore :: "((Key \<times> bytes) list memDbBuffer, Key \<Rightarrow> bytes option) BufferStore" where
  "exampleStore =
     \<lparr>MemBuffer = snd (memDbBuffer_Delete exampleDb exampleBuffer [1]),
      r = map_of [([1], [10]), ([2], [20])]\<rparr>"

text \<open>
  Two more nodes, both with no rule enabled: a query whose plan the example planner
  cannot realise, and a query that joins two tables with no condition at all.
\<close>

definition nodeUnsupported :: exampleNode where
  "nodeUnsupported =
     (Some (Logical (LogicalOperator ''Unsupported'' [])),
      \<lparr>builder_err = None, builder_visitInfo = [visitSalesS], builder_optFlag = 0\<rparr>)"

definition nodeCartesian :: exampleNode where
  "nodeCartesian =
     (Some (Logical (LogicalJoin InnerJoin []
        [LogicalOperator ''DataSource a'' [], LogicalOperator ''DataSource b'' []])),
      \<lparr>builder_err = None, builder_visitInfo = [visitSalesS], builder_optFlag = 0\<rparr>)"

text \<open>
  A buffer store over \<open>exampleBuffer\<close> itself, which holds \<open>[10]\<close> under the key \<open>[1]\<close>,
  reading from a snapshot that holds another value under that key.
\<close>

definition exampleStoreLive ::
  "((Key \<times> bytes) list memDbBuffer, Key \<Rightarrow> bytes option) BufferStore" where
  "exampleStoreLive =
     \<lparr>MemBuffer = exampleBuffer, r = map_of [([1], [99]), ([2], [20])]\<rparr>"

section \<open>The cartesian guard\<close>

text \<open>
  What the guard finds is there: when \<open>existsCartesianProduct\<close> answers true, some node
  of the tree is a cartesian join.
\<close>

lemma existsCartesianProduct_sound:
  fixes p :: "('c, 'o) LogicalPlan" and ps :: "('c, 'o) LogicalPlan list"
  shows "existsCartesianProduct p \<Longrightarrow> list_ex isCartesianJoin (planNodes p)"
    and "existsCartesianProduct_children ps \<Longrightarrow> list_ex isCartesianJoin (planNodes_children ps)"
  by (induction p and ps rule: existsCartesianProduct_existsCartesianProduct_children.induct)
     (auto split: if_splits)

text \<open>
  The guard is exact on the nodes it examines: it answers true exactly when a cartesian
  join is among the nodes reached without passing through a join that has no equality
  condition.
\<close>

lemma existsCartesianProduct_examinedNodes:
  fixes p :: "('c, 'o) LogicalPlan" and ps :: "('c, 'o) LogicalPlan list"
  shows "existsCartesianProduct p = list_ex isCartesianJoin (examinedNodes p)"
    and "existsCartesianProduct_children ps = list_ex isCartesianJoin (examinedNodes_children ps)"
  by (induction p and ps rule: existsCartesianProduct_existsCartesianProduct_children.induct)
     auto

text \<open>
  Claim C1. The claim: \<open>existsCartesianProduct\<close> is true exactly when some join node
  anywhere in the tree has no equality condition and type inner, left outer or right
  outer. The code does not look below a join that has no equality condition: on a
  semi-join without equality conditions whose second child is an inner join without any
  condition, the tree contains a cartesian join and \<open>existsCartesianProduct\<close> is false.
\<close>

theorem existsCartesianProduct_misses_join_below_semi_join:
  "containsCartesianJoin maskedCartesianPlan \<and> \<not> existsCartesianProduct maskedCartesianPlan"
  by (simp add: maskedCartesianPlan_def containsCartesianJoin_def)

section \<open>The rule pipeline\<close>

lemma flag_bit: "(flag AND 2 ^ i = 0) = (\<not> bit flag i)" for flag :: "64 word"
  by (simp add: and_exp_eq_0_iff_not_bit)

text \<open>
  The loop from index \<open>i\<close>, entered with no error, applies in order the rules left whose
  bit is set, counting bits from \<open>i\<close>.
\<close>

lemma logicalOptimize_range_applyInOrder:
  "logicalOptimize_range opt flag i rules logic None w =
   applyInOrder opt (map snd (filter (\<lambda>kr. bit flag (fst kr)) (enumerate i rules))) logic w"
proof (induction rules arbitrary: i logic w)
  case Nil
  then show ?case by simp
next
  case (Cons rule rest)
  show ?case
  proof (cases "bit flag i")
    case False
    then show ?thesis using Cons.IH [of "Suc i" logic w] by (simp add: flag_bit)
  next
    case True
    obtain logic' err' u' where o: "opt rule logic (fst w) = ((logic', err'), u')"
      by (metis prod.exhaust)
    show ?thesis
    proof (cases err')
      case None
      then show ?thesis
        using True o Cons.IH [of "Suc i" logic' "(u', snd w @ [Call_optimize rule])"]
        by (simp add: flag_bit)
    next
      case (Some e)
      then show ?thesis using True o by (simp add: flag_bit)
    qed
  qed
qed

lemma logicalOptimize_applyInOrder:
  "logicalOptimize opt flag logic w = applyInOrder opt (selectedRules flag) logic w"
  by (simp add: logicalOptimize_def selectedRules_def logicalOptimize_range_applyInOrder)

lemma selectedRules_single:
  assumes "k < 8"
  shows "selectedRules (push_bit k 1) = [optRuleList ! k]"
proof -
  from assms have "k = 0 \<or> k = 1 \<or> k = 2 \<or> k = 3 \<or> k = 4 \<or> k = 5 \<or> k = 6 \<or> k = 7"
    by arith
  then show ?thesis
    by (auto simp add: selectedRules_def optRuleList_def bit_push_bit_iff bit_1_iff)
qed

lemma selectedRules_137:
  "selectedRules 137 = [columnPruner] @ decorrelateSolver # [pushDownTopNOptimizer]"
  by (simp add: selectedRules_def optRuleList_def)

lemma applyInOrder_append:
  "applyInOrder opt (xs @ ys) logic w =
     (case applyInOrder opt xs logic w of
        ((l, None), w1) \<Rightarrow> applyInOrder opt ys l w1
      | ((l, Some e), w1) \<Rightarrow> ((l, Some e), w1))"
proof (induction xs arbitrary: logic w)
  case Nil
  show ?case by simp
next
  case (Cons x xs)
  obtain l' e' u' where o: "opt x logic (fst w) = ((l', e'), u')"
    by (metis prod.exhaust)
  show ?case
  proof (cases e')
    case None
    then show ?thesis using o Cons.IH by simp
  next
    case (Some e)
    then show ?thesis using o by simp
  qed
qed

text \<open>Rules that all succeed leave one call each in the log, in their order.\<close>

lemma applyInOrder_log:
  "applyInOrder opt rs logic w = ((l, None), w1) \<Longrightarrow> snd w1 = snd w @ map Call_optimize rs"
proof (induction rs arbitrary: logic w)
  case Nil
  then show ?case by simp
next
  case (Cons x xs)
  obtain l' e' u' where o: "opt x logic (fst w) = ((l', e'), u')"
    by (metis prod.exhaust)
  show ?case
  proof (cases e')
    case None
    with o Cons.prems
    have "applyInOrder opt xs l' (u', snd w @ [Call_optimize x]) = ((l, None), w1)" by simp
    from Cons.IH [OF this] show ?thesis by simp
  next
    case (Some e)
    with o Cons.prems show ?thesis by simp
  qed
qed

lemma applyInOrder_error_no_plan:
  "applyInOrder opt rs logic w = ((l, Some e), w1) \<Longrightarrow> l = None"
proof (induction rs arbitrary: logic w)
  case Nil
  then show ?case by simp
next
  case (Cons x xs)
  obtain l' e' u' where o: "opt x logic (fst w) = ((l', e'), u')"
    by (metis prod.exhaust)
  show ?case
  proof (cases e')
    case None
    with o Cons.prems
    have "applyInOrder opt xs l' (u', snd w @ [Call_optimize x]) = ((l, Some e), w1)" by simp
    from Cons.IH [OF this] show ?thesis .
  next
    case (Some e2)
    with o Cons.prems show ?thesis by simp
  qed
qed

lemma logicalOptimize_log:
  "logicalOptimize opt flag logic w = ((l, None), w1) \<Longrightarrow>
   snd w1 = snd w @ map Call_optimize (selectedRules flag)"
  by (simp add: logicalOptimize_applyInOrder applyInOrder_log)

lemma logicalOptimize_abort:
  assumes sel: "selectedRules flag = before @ rule # after"
    and pre: "applyInOrder opt before logic w = ((logic1, None), w1)"
    and fail: "opt rule logic1 (fst w1) = ((logic2, Some e), u2)"
  shows "logicalOptimize opt flag logic w =
           ((None, Some e), (u2, snd w @ map Call_optimize before @ [Call_optimize rule]))"
proof -
  have "snd w1 = snd w @ map Call_optimize before" using applyInOrder_log [OF pre] .
  then show ?thesis
    using sel pre fail by (simp add: logicalOptimize_applyInOrder applyInOrder_append)
qed

lemma logicalOptimize_never_both:
  assumes "snd (fst (logicalOptimize opt flag logic w)) \<noteq> None"
  shows "fst (fst (logicalOptimize opt flag logic w)) = None"
proof -
  obtain l er w2 where res: "logicalOptimize opt flag logic w = ((l, er), w2)"
    by (metis prod.exhaust)
  with assms obtain e where "er = Some e" by auto
  with res have "applyInOrder opt (selectedRules flag) logic w = ((l, Some e), w2)"
    by (simp add: logicalOptimize_applyInOrder)
  from applyInOrder_error_no_plan [OF this] res show ?thesis by simp
qed

text \<open>
  Claim C2. For every flag and plan, \<open>logicalOptimize\<close> applies exactly the rules of the
  catalog whose bit is set, in catalog order, each rule on the plan (and state) the rule
  applied before it produced; and a flag with only bit \<open>k\<close> set, \<open>k < 8\<close>, applies rule
  \<open>k\<close> of the catalog and no other. A flag of 8 bits is a flag whose higher bits are
  clear; the equation holds for every 64-bit flag.
\<close>

theorem logicalOptimize_applies_selected_rules_in_catalog_order:
  "logicalOptimize opt flag logic w = applyInOrder opt (selectedRules flag) logic w \<and>
   (\<forall>k<8. logicalOptimize opt (push_bit k 1) logic w =
           applyInOrder opt [optRuleList ! k] logic w)"
  by (simp add: logicalOptimize_applyInOrder selectedRules_single
           del: push_bit_of_1 applyInOrder.simps)

theorem logicalOptimize_applies_selected_rules_witness:
  "(5::nat) < 8 \<and>
   logicalOptimize (exampleRules []) (push_bit 5 1) (Some examplePlan) exampleWorld =
     ((Some (LogicalOperator ''ppdSolver'' [examplePlan]), None),
      (\<lparr>PlanID = 8\<rparr>, [Call_optimize ppdSolver])) \<and>
   logicalOptimize (exampleRules []) 137 (Some examplePlan) exampleWorld =
     ((Some (LogicalOperator ''pushDownTopNOptimizer''
         [LogicalOperator ''decorrelateSolver'' [LogicalOperator ''columnPruner'' [examplePlan]]]),
       None),
      (\<lparr>PlanID = 10\<rparr>,
       [Call_optimize columnPruner, Call_optimize decorrelateSolver,
        Call_optimize pushDownTopNOptimizer]))"
proof -
  have one: "logicalOptimize (exampleRules []) (push_bit 5 1) (Some examplePlan) exampleWorld =
      applyInOrder (exampleRules []) [optRuleList ! 5] (Some examplePlan) exampleWorld"
    using logicalOptimize_applies_selected_rules_in_catalog_order
            [of "exampleRules []" 137 "Some examplePlan" exampleWorld,
             THEN conjunct2, rule_format, of 5]
    by (simp del: push_bit_of_1 applyInOrder.simps)
  have all: "logicalOptimize (exampleRules []) 137 (Some examplePlan) exampleWorld =
      applyInOrder (exampleRules []) (selectedRules 137) (Some examplePlan) exampleWorld"
    using logicalOptimize_applies_selected_rules_in_catalog_order
            [of "exampleRules []" 137 "Some examplePlan" exampleWorld, THEN conjunct1] .
  show ?thesis
    unfolding one all selectedRules_137
    by (simp add: optRuleList_def exampleRules_def exampleWorld_def)
qed

text \<open>
  Claim C6. When the rules selected before \<open>rule\<close> all succeed and \<open>rule\<close> then returns
  an error, \<open>logicalOptimize\<close> returns no plan and that error, in the state \<open>rule\<close> left,
  and the log holds the calls of the rules before and of \<open>rule\<close>, none of a later rule.
  And whatever the rules do, a result of \<open>logicalOptimize\<close> with an error has no plan.
\<close>

theorem logicalOptimize_aborts_on_rule_error:
  "(selectedRules flag = before @ rule # after \<and>
    applyInOrder opt before logic w = ((logic1, None), w1) \<and>
    opt rule logic1 (fst w1) = ((logic2, Some e), u2) \<longrightarrow>
      logicalOptimize opt flag logic w =
        ((None, Some e), (u2, snd w @ map Call_optimize before @ [Call_optimize rule]))) \<and>
   (snd (fst (logicalOptimize opt flag logic w)) \<noteq> None \<longrightarrow>
      fst (fst (logicalOptimize opt flag logic w)) = None)"
proof (intro conjI impI)
  assume "selectedRules flag = before @ rule # after \<and>
    applyInOrder opt before logic w = ((logic1, None), w1) \<and>
    opt rule logic1 (fst w1) = ((logic2, Some e), u2)"
  then show "logicalOptimize opt flag logic w =
        ((None, Some e), (u2, snd w @ map Call_optimize before @ [Call_optimize rule]))"
    using logicalOptimize_abort [of flag before rule after opt logic w logic1 w1 logic2 e u2]
    by simp
next
  assume "snd (fst (logicalOptimize opt flag logic w)) \<noteq> None"
  then show "fst (fst (logicalOptimize opt flag logic w)) = None"
    by (rule logicalOptimize_never_both)
qed

theorem logicalOptimize_aborts_on_rule_error_witness:
  "selectedRules 137 = [columnPruner] @ decorrelateSolver # [pushDownTopNOptimizer] \<and>
   applyInOrder (exampleRules [decorrelateSolver]) [columnPruner] (Some examplePlan) exampleWorld =
     ((Some (LogicalOperator ''columnPruner'' [examplePlan]), None),
      (\<lparr>PlanID = 8\<rparr>, [Call_optimize columnPruner])) \<and>
   exampleRules [decorrelateSolver] decorrelateSolver
       (Some (LogicalOperator ''columnPruner'' [examplePlan])) \<lparr>PlanID = 8\<rparr> =
     ((None, Some (External ''decorrelateSolver'')), \<lparr>PlanID = 9\<rparr>) \<and>
   logicalOptimize (exampleRules [decorrelateSolver]) 137 (Some examplePlan) exampleWorld =
     ((None, Some (External ''decorrelateSolver'')),
      (\<lparr>PlanID = 9\<rparr>, [Call_optimize columnPruner, Call_optimize decorrelateSolver]))"
proof -
  have pre: "applyInOrder (exampleRules [decorrelateSolver]) [columnPruner] (Some examplePlan)
       exampleWorld =
     ((Some (LogicalOperator ''columnPruner'' [examplePlan]), None),
      (\<lparr>PlanID = 8\<rparr>, [Call_optimize columnPruner]))"
    by (simp add: exampleRules_def exampleWorld_def)
  have fail: "exampleRules [decorrelateSolver] decorrelateSolver
       (Some (LogicalOperator ''columnPruner'' [examplePlan])) \<lparr>PlanID = 8\<rparr> =
     ((None, Some (External ''decorrelateSolver'')), \<lparr>PlanID = 9\<rparr>)"
    by (simp add: exampleRules_def)
  show ?thesis
    using logicalOptimize_aborts_on_rule_error
            [of 137 "[columnPruner]" decorrelateSolver "[pushDownTopNOptimizer]"
                "exampleRules [decorrelateSolver]" "Some examplePlan" exampleWorld
                "Some (LogicalOperator ''columnPruner'' [examplePlan])"
                "(\<lparr>PlanID = 8\<rparr>, [Call_optimize columnPruner])" None
                "External ''decorrelateSolver''" "\<lparr>PlanID = 9\<rparr>"]
      selectedRules_137 pre fail
    by (simp add: exampleWorld_def)
qed

section \<open>The physical optimization\<close>

lemma physicalOptimize_invalid:
  assumes "preparePossibleProperties cs logic (fst w) = (logic1, u1)"
    and "deriveStats cs logic1 u1 = ((logic2, None), u2)"
    and "findBestTask cs logic2 \<lparr>taskTp = rootTaskType, expectedCnt = MaxFloat64\<rparr> u2 = ((t, None), u3)"
    and "invalid cs t"
  shows "physicalOptimize cs (Some logic) w =
           (Return None (Some (ErrInternal noPhysicalPlanMessage)),
            (u3, snd w @ [Call_preparePossibleProperties, Call_deriveStats, Call_findBestTask]))"
  using assms by simp

lemma physicalOptimize_success:
  assumes "physicalOptimize cs logic0 w = (Return pp None, w')"
  shows "\<exists>logic logic1 u1 logic2 u2 t u3 p.
           logic0 = Some logic \<and>
           preparePossibleProperties cs logic (fst w) = (logic1, u1) \<and>
           deriveStats cs logic1 u1 = ((logic2, None), u2) \<and>
           findBestTask cs logic2 \<lparr>taskTp = rootTaskType, expectedCnt = MaxFloat64\<rparr> u2 =
             ((t, None), u3) \<and>
           \<not> invalid cs t \<and> plan cs t = Some p \<and>
           (the pp, fst w') = ResolveIndices cs p u3 \<and> pp \<noteq> None \<and>
           snd w' = snd w @ [Call_preparePossibleProperties, Call_deriveStats,
                             Call_findBestTask, Call_ResolveIndices]"
proof (cases logic0)
  case None
  with assms show ?thesis by simp
next
  case (Some logic)
  obtain logic1 u1 where a: "preparePossibleProperties cs logic (fst w) = (logic1, u1)"
    by (metis prod.exhaust)
  obtain logic2 e2 u2 where b: "deriveStats cs logic1 u1 = ((logic2, e2), u2)"
    by (metis prod.exhaust)
  obtain t e3 u3 where c: "findBestTask cs logic2 \<lparr>taskTp = rootTaskType, expectedCnt = MaxFloat64\<rparr> u2 = ((t, e3), u3)"
    by (metis prod.exhaust)
  from assms Some a b c show ?thesis
    by (auto split: if_splits option.splits prod.splits)
qed

text \<open>
  Claim C5. When statistics and search return no error and the root task is invalid,
  \<open>physicalOptimize\<close> returns no plan and the internal error with the message
  \<open>noPhysicalPlanMessage\<close>. When \<open>physicalOptimize\<close> returns without error, it returns
  a plan, that plan is what \<open>ResolveIndices\<close> made of the plan of the valid task the
  search found, and the calls it made are the three of the search and then one call of
  \<open>ResolveIndices\<close>.
\<close>

theorem physicalOptimize_invalid_task_or_resolved_once:
  "(preparePossibleProperties cs logic (fst w) = (logic1, u1) \<and>
    deriveStats cs logic1 u1 = ((logic2, None), u2) \<and>
    findBestTask cs logic2 \<lparr>taskTp = rootTaskType, expectedCnt = MaxFloat64\<rparr> u2 =
      ((t, None), u3) \<and>
    invalid cs t \<longrightarrow>
      physicalOptimize cs (Some logic) w =
        (Return None (Some (ErrInternal noPhysicalPlanMessage)),
         (u3, snd w @ [Call_preparePossibleProperties, Call_deriveStats, Call_findBestTask]))) \<and>
   (physicalOptimize cs logic0 w = (Return pp None, w') \<longrightarrow>
      (\<exists>l l1 v1 l2 v2 t' v3 p.
           logic0 = Some l \<and>
           preparePossibleProperties cs l (fst w) = (l1, v1) \<and>
           deriveStats cs l1 v1 = ((l2, None), v2) \<and>
           findBestTask cs l2 \<lparr>taskTp = rootTaskType, expectedCnt = MaxFloat64\<rparr> v2 =
             ((t', None), v3) \<and>
           \<not> invalid cs t' \<and> plan cs t' = Some p \<and>
           (the pp, fst w') = ResolveIndices cs p v3 \<and> pp \<noteq> None \<and>
           snd w' = snd w @ [Call_preparePossibleProperties, Call_deriveStats,
                             Call_findBestTask, Call_ResolveIndices]))"
proof (intro conjI impI)
  assume "preparePossibleProperties cs logic (fst w) = (logic1, u1) \<and>
    deriveStats cs logic1 u1 = ((logic2, None), u2) \<and>
    findBestTask cs logic2 \<lparr>taskTp = rootTaskType, expectedCnt = MaxFloat64\<rparr> u2 =
      ((t, None), u3) \<and>
    invalid cs t"
  then show "physicalOptimize cs (Some logic) w =
        (Return None (Some (ErrInternal noPhysicalPlanMessage)),
         (u3, snd w @ [Call_preparePossibleProperties, Call_deriveStats, Call_findBestTask]))"
    using physicalOptimize_invalid [of cs logic w logic1 u1 logic2 u2 t u3] by blast
next
  assume "physicalOptimize cs logic0 w = (Return pp None, w')"
  from physicalOptimize_success [OF this]
  show "\<exists>l l1 v1 l2 v2 t' v3 p.
           logic0 = Some l \<and>
           preparePossibleProperties cs l (fst w) = (l1, v1) \<and>
           deriveStats cs l1 v1 = ((l2, None), v2) \<and>
           findBestTask cs l2 \<lparr>taskTp = rootTaskType, expectedCnt = MaxFloat64\<rparr> v2 =
             ((t', None), v3) \<and>
           \<not> invalid cs t' \<and> plan cs t' = Some p \<and>
           (the pp, fst w') = ResolveIndices cs p v3 \<and> pp \<noteq> None \<and>
           snd w' = snd w @ [Call_preparePossibleProperties, Call_deriveStats,
                             Call_findBestTask, Call_ResolveIndices]" .
qed

theorem physicalOptimize_invalid_task_or_resolved_once_witness:
  "invalid (exampleCallees None []) None \<and>
   physicalOptimize (exampleCallees None []) (Some (LogicalOperator ''Unsupported'' []))
       exampleWorld =
     (Return None (Some (ErrInternal noPhysicalPlanMessage)),
      (\<lparr>PlanID = 7\<rparr>,
       [Call_preparePossibleProperties, Call_deriveStats, Call_findBestTask])) \<and>
   physicalOptimize (exampleCallees None []) (Some examplePlan) exampleWorld =
     (Return (Some examplePlan) None,
      (\<lparr>PlanID = 7\<rparr>,
       [Call_preparePossibleProperties, Call_deriveStats, Call_findBestTask,
        Call_ResolveIndices])) \<and>
   count_list (snd (snd (physicalOptimize (exampleCallees None []) (Some examplePlan)
                          exampleWorld))) Call_ResolveIndices = 1"
proof -
  have bad: "physicalOptimize (exampleCallees None []) (Some (LogicalOperator ''Unsupported'' []))
       exampleWorld =
     (Return None (Some (ErrInternal noPhysicalPlanMessage)),
      (\<lparr>PlanID = 7\<rparr>,
       [Call_preparePossibleProperties, Call_deriveStats, Call_findBestTask]))"
    using physicalOptimize_invalid_task_or_resolved_once [of "exampleCallees None []" "LogicalOperator ''Unsupported'' []" exampleWorld
                 "LogicalOperator ''Unsupported'' []" "\<lparr>PlanID = 7\<rparr>"
                 "LogicalOperator ''Unsupported'' []" "\<lparr>PlanID = 7\<rparr>" None
                 "\<lparr>PlanID = 7\<rparr>", THEN conjunct1]
    by (simp add: exampleCallees_def exampleWorld_def)
  have good: "physicalOptimize (exampleCallees None []) (Some examplePlan) exampleWorld =
     (Return (Some examplePlan) None,
      (\<lparr>PlanID = 7\<rparr>,
       [Call_preparePossibleProperties, Call_deriveStats, Call_findBestTask,
        Call_ResolveIndices]))"
    by (simp add: exampleCallees_def exampleWorld_def examplePlan_def)
  show ?thesis using bad good by (simp add: exampleCallees_def)
qed

section \<open>The driver\<close>

lemma doOptimize_guard_rejects:
  assumes "logicalOptimize (optimize cs) flag logic w = ((Some l, None), w1)"
    and "existsCartesianProduct l"
  shows "doOptimize False cs flag logic w = (Return None (Some ErrCartesianProductUnsupported), w1)"
  using assms by (simp add: doOptimize_def)

lemma doOptimize_permissive:
  assumes "logicalOptimize (optimize cs) flag logic w = ((Some l, None), w1)"
  shows "doOptimize True cs flag logic w =
           (case physicalOptimize cs (Some l) w1 of
              (Panic, w2) \<Rightarrow> (Panic, w2)
            | (Return physical (Some e), w2) \<Rightarrow> (Return None (Some e), w2)
            | (Return physical None, w2) \<Rightarrow>
                (Return (fst (eliminatePhysicalProjection cs physical (fst w2))) None,
                 (snd (eliminatePhysicalProjection cs physical (fst w2)),
                  snd w2 @ [Call_eliminatePhysicalProjection])))"
  using assms by (simp add: doOptimize_def split: prod.splits outcome.splits option.splits)

lemma doOptimize_success:
  assumes "doOptimize allow cs flag logic w = (Return fp None, w')"
  shows "\<exists>l w1 pp w2.
           logicalOptimize (optimize cs) flag logic w = ((Some l, None), w1) \<and>
           (allow \<or> \<not> existsCartesianProduct l) \<and>
           physicalOptimize cs (Some l) w1 = (Return pp None, w2) \<and>
           (fp, fst w') = eliminatePhysicalProjection cs pp (fst w2) \<and>
           snd w' = snd w2 @ [Call_eliminatePhysicalProjection]"
proof -
  obtain l0 e0 w1 where a: "logicalOptimize (optimize cs) flag logic w = ((l0, e0), w1)"
    by (metis prod.exhaust)
  obtain res w2 where b: "physicalOptimize cs l0 w1 = (res, w2)"
    by (metis prod.exhaust)
  from assms a b show ?thesis
    by (auto simp add: doOptimize_def split: if_splits option.splits prod.splits outcome.splits)
qed

lemma doOptimize_success_log:
  assumes "doOptimize allow cs flag logic w = (Return fp None, w')"
  shows "snd w' = snd w @ map Call_optimize (selectedRules flag) @
           [Call_preparePossibleProperties, Call_deriveStats, Call_findBestTask,
            Call_ResolveIndices, Call_eliminatePhysicalProjection]"
proof -
  from doOptimize_success [OF assms] obtain l w1 pp w2 where
    a: "logicalOptimize (optimize cs) flag logic w = ((Some l, None), w1)" and
    b: "physicalOptimize cs (Some l) w1 = (Return pp None, w2)" and
    c: "snd w' = snd w2 @ [Call_eliminatePhysicalProjection]"
    by blast
  from physicalOptimize_success [OF b]
  have "snd w2 = snd w1 @ [Call_preparePossibleProperties, Call_deriveStats,
                             Call_findBestTask, Call_ResolveIndices]" by blast
  with logicalOptimize_log [OF a] c show ?thesis by simp
qed

text \<open>
  Claim C3. The claim: when the policy disallows cartesian products and the rewritten
  plan contains a cartesian join, \<open>doOptimize\<close> returns \<open>ErrCartesianProductUnsupported\<close>
  and attempts no physical search. With the policy set to disallow and no rule enabled,
  the plan \<open>maskedCartesianPlan\<close> contains a cartesian join, and \<open>doOptimize\<close> runs the
  physical search and returns a physical plan: the guard it asks is
  \<open>existsCartesianProduct\<close>, which does not look below the semi-join.
\<close>

theorem doOptimize_searches_plan_with_join_below_semi_join:
  "containsCartesianJoin maskedCartesianPlan \<and>
   doOptimize False (exampleCallees None []) 0 (Some maskedCartesianPlan) exampleWorld =
     (Return (Some maskedCartesianPlan) None,
      (\<lparr>PlanID = 7\<rparr>,
       [Call_preparePossibleProperties, Call_deriveStats, Call_findBestTask,
        Call_ResolveIndices, Call_eliminatePhysicalProjection]))"
  by (simp add: containsCartesianJoin_def maskedCartesianPlan_def doOptimize_def
        logicalOptimize_def optRuleList_def exampleCallees_def exampleWorld_def)

lemma checkPrivilege_list_all:
  "checkPrivilege pm vs =
   list_all (\<lambda>v. pm (visitInfo.db v) (table v) (column v) (privilege v)) vs"
  by (induction vs) auto

lemma Optimize_privilege_denied:
  assumes "build cs node ((fst w)\<lparr>PlanID := 0\<rparr>) = ((p, b), u1)"
    and "builder_err b = None"
    and "GetPrivilegeManager cs u1 = Some pm"
    and "\<not> checkPrivilege pm (builder_visitInfo b)"
  shows "Optimize allow cs node w =
           (Return None (Some (errors_New ''privilege check fail'')), (u1, snd w @ [Call_build]))"
  using assms by (simp add: Optimize_def)

lemma Optimize_builder_error:
  assumes "build cs node ((fst w)\<lparr>PlanID := 0\<rparr>) = ((p, b), u1)"
    and "builder_err b = Some e"
  shows "Optimize allow cs node w = (Return None (Some e), (u1, snd w @ [Call_build]))"
  using assms by (simp add: Optimize_def)

lemma Optimize_logical:
  assumes "build cs node ((fst w)\<lparr>PlanID := 0\<rparr>) = ((Some (Logical logic), b), u1)"
    and "builder_err b = None"
    and "case GetPrivilegeManager cs u1 of None \<Rightarrow> True
         | Some pm \<Rightarrow> checkPrivilege pm (builder_visitInfo b)"
  shows "Optimize allow cs node w =
           (asPlan (fst (doOptimize allow cs (builder_optFlag b) (Some logic)
                           (u1, snd w @ [Call_build]))),
            snd (doOptimize allow cs (builder_optFlag b) (Some logic)
                   (u1, snd w @ [Call_build])))"
  using assms by (simp add: Optimize_def split: option.splits prod.splits)

lemma Optimize_logical_success:
  assumes bld: "build cs node ((fst w)\<lparr>PlanID := 0\<rparr>) = ((Some (Logical logic), b), u1)"
    and res: "Optimize allow cs node w = (Return fp None, w')"
  shows "builder_err b = None \<and>
         (case GetPrivilegeManager cs u1 of None \<Rightarrow> True
          | Some pm \<Rightarrow> checkPrivilege pm (builder_visitInfo b)) \<and>
         (\<exists>l w1. logicalOptimize (optimize cs) (builder_optFlag b) (Some logic)
                    (u1, snd w @ [Call_build]) = ((Some l, None), w1) \<and>
                  (allow \<or> \<not> existsCartesianProduct l)) \<and>
         snd w' = snd w @ [Call_build] @ map Call_optimize (selectedRules (builder_optFlag b)) @
           [Call_preparePossibleProperties, Call_deriveStats, Call_findBestTask,
            Call_ResolveIndices, Call_eliminatePhysicalProjection]"
proof -
  have e: "builder_err b = None"
    using bld res by (auto simp add: Optimize_def split: if_splits)
  have c: "case GetPrivilegeManager cs u1 of None \<Rightarrow> True
          | Some pm \<Rightarrow> checkPrivilege pm (builder_visitInfo b)"
    using bld res e by (auto simp add: Optimize_def split: if_splits option.splits)
  obtain r w2 where d: "doOptimize allow cs (builder_optFlag b) (Some logic)
                   (u1, snd w @ [Call_build]) = (r, w2)"
    by (metis prod.exhaust)
  from Optimize_logical [OF bld e c, of allow] res d
  have "asPlan r = Return fp None" and w2: "w2 = w'" by simp_all
  then obtain fp' where r: "r = Return fp' None" by (cases r) auto
  from doOptimize_success [OF d [unfolded r]] doOptimize_success_log [OF d [unfolded r]] e c w2
  show ?thesis by auto
qed

lemma Optimize_nodeSalesS:
  "Optimize False (exampleCallees (Some exampleManager) []) nodeSalesS exampleWorld =
     (Return (Some (Physical (LogicalOperator ''pushDownTopNOptimizer''
         [LogicalOperator ''decorrelateSolver'' [LogicalOperator ''columnPruner'' [examplePlan]]])))
        None,
      (\<lparr>PlanID = 3\<rparr>,
       [Call_build, Call_optimize columnPruner, Call_optimize decorrelateSolver,
        Call_optimize pushDownTopNOptimizer, Call_preparePossibleProperties, Call_deriveStats,
        Call_findBestTask, Call_ResolveIndices, Call_eliminatePhysicalProjection]))"
  by (simp add: Optimize_def doOptimize_def logicalOptimize_applyInOrder selectedRules_137
        exampleCallees_def exampleRules_def exampleWorld_def nodeSalesS_def examplePlan_def
        exampleManager_def visitSalesS_def)

lemma doOptimize_phases:
  assumes "logicalOptimize (optimize cs) flag logic w = ((lres, eres), w1)"
  shows "doOptimize allow cs flag logic w =
     (case eres of
        Some e \<Rightarrow> (Return None (Some e), w1)
      | None \<Rightarrow>
     (case lres of
        None \<Rightarrow> (Panic, w1)
      | Some l \<Rightarrow>
          (if \<not> allow \<and> existsCartesianProduct l
           then (Return None (Some ErrCartesianProductUnsupported), w1)
           else
     (case physicalOptimize cs (Some l) w1 of
        (Panic, w2) \<Rightarrow> (Panic, w2)
      | (Return physical (Some e), w2) \<Rightarrow> (Return None (Some e), w2)
      | (Return physical None, w2) \<Rightarrow>
          (Return (fst (eliminatePhysicalProjection cs physical (fst w2))) None,
           (snd (eliminatePhysicalProjection cs physical (fst w2)),
            snd w2 @ [Call_eliminatePhysicalProjection]))))))"
  using assms
  by (simp add: doOptimize_def split: prod.splits outcome.splits option.splits)

lemma Optimize_logical_phases:
  assumes bld: "build cs node ((fst w)\<lparr>PlanID := 0\<rparr>) = ((Some (Logical logic), b), u1)"
    and ok: "builder_err b = None"
    and chk: "case GetPrivilegeManager cs u1 of None \<Rightarrow> True
         | Some pm \<Rightarrow> checkPrivilege pm (builder_visitInfo b)"
    and lo: "logicalOptimize (optimize cs) (builder_optFlag b) (Some logic)
               (u1, snd w @ [Call_build]) = ((lres, eres), w1)"
  shows "Optimize allow cs node w =
     (case eres of
        Some e \<Rightarrow> (Return None (Some e), w1)
      | None \<Rightarrow>
     (case lres of
        None \<Rightarrow> (Panic, w1)
      | Some l \<Rightarrow>
          (if \<not> allow \<and> existsCartesianProduct l
           then (Return None (Some ErrCartesianProductUnsupported), w1)
           else
     (case physicalOptimize cs (Some l) w1 of
        (Panic, w2) \<Rightarrow> (Panic, w2)
      | (Return physical (Some e), w2) \<Rightarrow> (Return None (Some e), w2)
      | (Return physical None, w2) \<Rightarrow>
          (Return (map_option Physical
                     (fst (eliminatePhysicalProjection cs physical (fst w2)))) None,
           (snd (eliminatePhysicalProjection cs physical (fst w2)),
            snd w2 @ [Call_eliminatePhysicalProjection]))))))"
  unfolding Optimize_logical [OF bld ok chk] doOptimize_phases [OF lo]
  by (simp split: prod.splits outcome.splits option.splits)

lemma Optimize_logical_success_flow:
  assumes bld: "build cs node ((fst w)\<lparr>PlanID := 0\<rparr>) = ((Some (Logical logic), b), u1)"
    and res: "Optimize allow cs node w = (Return fp None, w')"
  shows "\<exists>l w1 pp w2.
           logicalOptimize (optimize cs) (builder_optFlag b) (Some logic)
             (u1, snd w @ [Call_build]) = ((Some l, None), w1) \<and>
           (allow \<or> \<not> existsCartesianProduct l) \<and>
           physicalOptimize cs (Some l) w1 = (Return pp None, w2) \<and>
           fp = map_option Physical (fst (eliminatePhysicalProjection cs pp (fst w2))) \<and>
           fst w' = snd (eliminatePhysicalProjection cs pp (fst w2)) \<and>
           snd w' = snd w2 @ [Call_eliminatePhysicalProjection]"
proof -
  from Optimize_logical_success [OF bld res]
  have e: "builder_err b = None"
    and c: "case GetPrivilegeManager cs u1 of None \<Rightarrow> True
          | Some pm \<Rightarrow> checkPrivilege pm (builder_visitInfo b)"
    by blast+
  obtain r0 w2 where d: "doOptimize allow cs (builder_optFlag b) (Some logic)
                   (u1, snd w @ [Call_build]) = (r0, w2)"
    by (metis prod.exhaust)
  from Optimize_logical [OF bld e c, of allow] res d
  have "asPlan r0 = Return fp None" and w2: "w2 = w'" by simp_all
  then obtain fp' where r0: "r0 = Return fp' None" and fp: "fp = map_option Physical fp'"
    by (cases r0) auto
  from doOptimize_success [OF d [unfolded r0]] obtain l w1 pp w3 where
    "logicalOptimize (optimize cs) (builder_optFlag b) (Some logic)
       (u1, snd w @ [Call_build]) = ((Some l, None), w1)"
    "allow \<or> \<not> existsCartesianProduct l"
    "physicalOptimize cs (Some l) w1 = (Return pp None, w3)"
    "(fp', fst w2) = eliminatePhysicalProjection cs pp (fst w3)"
    "snd w2 = snd w3 @ [Call_eliminatePhysicalProjection]"
    by blast
  then show ?thesis using fp w2
    by (intro exI [of _ l] exI [of _ w1] exI [of _ pp] exI [of _ w3])
       (auto simp add: prod_eq_iff dest: sym)
qed

text \<open>
  Claim C4. \<open>checkPrivilege\<close> passes exactly when every visit record is verified. When a
  privilege manager is there and refuses one of the visit records, \<open>Optimize\<close> returns
  no plan and an error (the builder's, if the builder failed; else the privilege error),
  and the only call made is \<open>build\<close>. When the builder made a logical plan and
  \<open>Optimize\<close> returns without error, the builder had no error, the privilege check
  passed, the rule pipeline returned a plan on which the cartesian guard passed, the
  physical optimization of that plan returned a physical plan without error, the plan
  returned and the final state are those the projection elimination made of it, and the
  calls were, in this order: \<open>build\<close>, the selected rules in catalog order, the three
  calls of the cost search, \<open>ResolveIndices\<close>, and the projection elimination. And for a
  logical plan of a builder without error that passes the privilege check, the result of
  \<open>Optimize\<close> is given phase by phase, ending at the first that fails: the error of
  the rule pipeline; else \<open>ErrCartesianProductUnsupported\<close> when the policy disallows and
  the guard finds a cartesian join in the rewritten plan; else the error of the physical
  optimization; else the plan the projection elimination returns.
\<close>

theorem Optimize_phases_in_order:
  "checkPrivilege pm vs =
     list_all (\<lambda>v. pm (visitInfo.db v) (table v) (column v) (privilege v)) vs \<and>
   (build cs node ((fst w)\<lparr>PlanID := 0\<rparr>) = ((p, b), u1) \<and>
    GetPrivilegeManager cs u1 = Some pm \<and>
    \<not> list_all (\<lambda>v. pm (visitInfo.db v) (table v) (column v) (privilege v))
          (builder_visitInfo b) \<longrightarrow>
      Optimize allow cs node w =
        (Return None
           (Some (case builder_err b of
                    None \<Rightarrow> errors_New ''privilege check fail'' | Some e \<Rightarrow> e)),
         (u1, snd w @ [Call_build]))) \<and>
   (build cs node ((fst w)\<lparr>PlanID := 0\<rparr>) = ((Some (Logical logic), b), u1) \<and>
    Optimize allow cs node w = (Return fp None, w') \<longrightarrow>
      builder_err b = None \<and>
      (case GetPrivilegeManager cs u1 of
         None \<Rightarrow> True
       | Some pm' \<Rightarrow> checkPrivilege pm' (builder_visitInfo b)) \<and>
      (\<exists>l w1 pp w2.
         logicalOptimize (optimize cs) (builder_optFlag b) (Some logic)
           (u1, snd w @ [Call_build]) = ((Some l, None), w1) \<and>
         (allow \<or> \<not> existsCartesianProduct l) \<and>
         physicalOptimize cs (Some l) w1 = (Return pp None, w2) \<and>
         fp = map_option Physical (fst (eliminatePhysicalProjection cs pp (fst w2))) \<and>
         fst w' = snd (eliminatePhysicalProjection cs pp (fst w2)) \<and>
         snd w' = snd w2 @ [Call_eliminatePhysicalProjection]) \<and>
      snd w' = snd w @ [Call_build] @ map Call_optimize (selectedRules (builder_optFlag b)) @
        [Call_preparePossibleProperties, Call_deriveStats, Call_findBestTask,
         Call_ResolveIndices, Call_eliminatePhysicalProjection]) \<and>
   (build cs node ((fst w)\<lparr>PlanID := 0\<rparr>) = ((Some (Logical logic), b), u1) \<and>
    builder_err b = None \<and>
    (case GetPrivilegeManager cs u1 of
       None \<Rightarrow> True
     | Some pm' \<Rightarrow> checkPrivilege pm' (builder_visitInfo b)) \<and>
    logicalOptimize (optimize cs) (builder_optFlag b) (Some logic)
      (u1, snd w @ [Call_build]) = ((lres, eres), w1) \<longrightarrow>
      Optimize allow cs node w =
        (case eres of
           Some e \<Rightarrow> (Return None (Some e), w1)
         | None \<Rightarrow>
        (case lres of
           None \<Rightarrow> (Panic, w1)
         | Some l \<Rightarrow>
             (if \<not> allow \<and> existsCartesianProduct l
              then (Return None (Some ErrCartesianProductUnsupported), w1)
              else
        (case physicalOptimize cs (Some l) w1 of
           (Panic, w2) \<Rightarrow> (Panic, w2)
         | (Return physical (Some e), w2) \<Rightarrow> (Return None (Some e), w2)
         | (Return physical None, w2) \<Rightarrow>
             (Return (map_option Physical
                        (fst (eliminatePhysicalProjection cs physical (fst w2)))) None,
              (snd (eliminatePhysicalProjection cs physical (fst w2)),
               snd w2 @ [Call_eliminatePhysicalProjection])))))))"
proof (intro conjI impI)
  show "checkPrivilege pm vs =
     list_all (\<lambda>v. pm (visitInfo.db v) (table v) (column v) (privilege v)) vs"
    by (rule checkPrivilege_list_all)
next
  assume a: "build cs node ((fst w)\<lparr>PlanID := 0\<rparr>) = ((p, b), u1) \<and>
    GetPrivilegeManager cs u1 = Some pm \<and>
    \<not> list_all (\<lambda>v. pm (visitInfo.db v) (table v) (column v) (privilege v))
          (builder_visitInfo b)"
  then have n: "\<not> checkPrivilege pm (builder_visitInfo b)"
    by (simp add: checkPrivilege_list_all)
  show "Optimize allow cs node w =
        (Return None
           (Some (case builder_err b of
                    None \<Rightarrow> errors_New ''privilege check fail'' | Some e \<Rightarrow> e)),
         (u1, snd w @ [Call_build]))"
  proof (cases "builder_err b")
    case None
    with a n Optimize_privilege_denied [of cs node w p b u1 pm allow] show ?thesis by simp
  next
    case (Some e)
    with a Optimize_builder_error [of cs node w p b u1 e allow] show ?thesis by simp
  qed
next
  assume "build cs node ((fst w)\<lparr>PlanID := 0\<rparr>) = ((Some (Logical logic), b), u1) \<and>
    Optimize allow cs node w = (Return fp None, w')"
  then have bld: "build cs node ((fst w)\<lparr>PlanID := 0\<rparr>) = ((Some (Logical logic), b), u1)"
    and res: "Optimize allow cs node w = (Return fp None, w')" by simp_all
  note all = Optimize_logical_success [OF bld res]
  show "builder_err b = None" using all by blast
  show "case GetPrivilegeManager cs u1 of
         None \<Rightarrow> True
       | Some pm' \<Rightarrow> checkPrivilege pm' (builder_visitInfo b)" using all by blast
  show "\<exists>l w1 pp w2.
         logicalOptimize (optimize cs) (builder_optFlag b) (Some logic)
           (u1, snd w @ [Call_build]) = ((Some l, None), w1) \<and>
         (allow \<or> \<not> existsCartesianProduct l) \<and>
         physicalOptimize cs (Some l) w1 = (Return pp None, w2) \<and>
         fp = map_option Physical (fst (eliminatePhysicalProjection cs pp (fst w2))) \<and>
         fst w' = snd (eliminatePhysicalProjection cs pp (fst w2)) \<and>
         snd w' = snd w2 @ [Call_eliminatePhysicalProjection]"
    by (rule Optimize_logical_success_flow [OF bld res])
  show "snd w' = snd w @ [Call_build] @ map Call_optimize (selectedRules (builder_optFlag b)) @
        [Call_preparePossibleProperties, Call_deriveStats, Call_findBestTask,
         Call_ResolveIndices, Call_eliminatePhysicalProjection]" using all by blast
next
  assume "build cs node ((fst w)\<lparr>PlanID := 0\<rparr>) = ((Some (Logical logic), b), u1) \<and>
    builder_err b = None \<and>
    (case GetPrivilegeManager cs u1 of
       None \<Rightarrow> True
     | Some pm' \<Rightarrow> checkPrivilege pm' (builder_visitInfo b)) \<and>
    logicalOptimize (optimize cs) (builder_optFlag b) (Some logic)
      (u1, snd w @ [Call_build]) = ((lres, eres), w1)"
  then have bld: "build cs node ((fst w)\<lparr>PlanID := 0\<rparr>) = ((Some (Logical logic), b), u1)"
    and ok: "builder_err b = None"
    and chk: "case GetPrivilegeManager cs u1 of None \<Rightarrow> True
         | Some pm' \<Rightarrow> checkPrivilege pm' (builder_visitInfo b)"
    and lo: "logicalOptimize (optimize cs) (builder_optFlag b) (Some logic)
               (u1, snd w @ [Call_build]) = ((lres, eres), w1)"
    by simp_all
  show "Optimize allow cs node w =
        (case eres of
           Some e \<Rightarrow> (Return None (Some e), w1)
         | None \<Rightarrow>
        (case lres of
           None \<Rightarrow> (Panic, w1)
         | Some l \<Rightarrow>
             (if \<not> allow \<and> existsCartesianProduct l
              then (Return None (Some ErrCartesianProductUnsupported), w1)
              else
        (case physicalOptimize cs (Some l) w1 of
           (Panic, w2) \<Rightarrow> (Panic, w2)
         | (Return physical (Some e), w2) \<Rightarrow> (Return None (Some e), w2)
         | (Return physical None, w2) \<Rightarrow>
             (Return (map_option Physical
                        (fst (eliminatePhysicalProjection cs physical (fst w2)))) None,
              (snd (eliminatePhysicalProjection cs physical (fst w2)),
               snd w2 @ [Call_eliminatePhysicalProjection]))))))"
    by (rule Optimize_logical_phases [OF bld ok chk lo])
qed

theorem Optimize_phases_in_order_witness:
  "build (exampleCallees (Some exampleManager) []) nodeSalesPrice
       ((fst exampleWorld)\<lparr>PlanID := 0\<rparr>) = (nodeSalesPrice, \<lparr>PlanID = 0\<rparr>) \<and>
   GetPrivilegeManager (exampleCallees (Some exampleManager) []) \<lparr>PlanID = 0\<rparr> =
     Some exampleManager \<and>
   checkPrivilege exampleManager (builder_visitInfo (snd nodeSalesPrice)) = False \<and>
   Optimize False (exampleCallees (Some exampleManager) []) nodeSalesPrice exampleWorld =
     (Return None (Some (errors_New ''privilege check fail'')),
      (\<lparr>PlanID = 0\<rparr>, [Call_build])) \<and>
   build (exampleCallees (Some exampleManager) []) nodeSalesS
       ((fst exampleWorld)\<lparr>PlanID := 0\<rparr>) = (nodeSalesS, \<lparr>PlanID = 0\<rparr>) \<and>
   snd (snd (Optimize False (exampleCallees (Some exampleManager) []) nodeSalesS exampleWorld)) =
     [Call_build, Call_optimize columnPruner, Call_optimize decorrelateSolver,
      Call_optimize pushDownTopNOptimizer, Call_preparePossibleProperties, Call_deriveStats,
      Call_findBestTask, Call_ResolveIndices, Call_eliminatePhysicalProjection] \<and>
   Optimize False (exampleCallees (Some exampleManager) []) nodeSalesS exampleWorld =
     (Return (Some (Physical (LogicalOperator ''pushDownTopNOptimizer''
         [LogicalOperator ''decorrelateSolver'' [LogicalOperator ''columnPruner'' [examplePlan]]])))
        None,
      (\<lparr>PlanID = 3\<rparr>,
       [Call_build, Call_optimize columnPruner, Call_optimize decorrelateSolver,
        Call_optimize pushDownTopNOptimizer, Call_preparePossibleProperties, Call_deriveStats,
        Call_findBestTask, Call_ResolveIndices, Call_eliminatePhysicalProjection])) \<and>
   Optimize False (exampleCallees (Some exampleManager) []) nodeUnsupported exampleWorld =
     (Return None (Some (ErrInternal noPhysicalPlanMessage)),
      (\<lparr>PlanID = 0\<rparr>,
       [Call_build, Call_preparePossibleProperties, Call_deriveStats, Call_findBestTask])) \<and>
   Optimize False (exampleCallees (Some exampleManager) []) nodeCartesian exampleWorld =
     (Return None (Some ErrCartesianProductUnsupported), (\<lparr>PlanID = 0\<rparr>, [Call_build]))"
proof -
  let ?cs = "exampleCallees (Some exampleManager) []"
  have b1: "build ?cs nodeSalesPrice ((fst exampleWorld)\<lparr>PlanID := 0\<rparr>) =
              ((Some (Logical examplePlan), snd nodeSalesPrice), \<lparr>PlanID = 0\<rparr>)"
    by (simp add: exampleCallees_def exampleWorld_def nodeSalesPrice_def)
  have g: "GetPrivilegeManager ?cs \<lparr>PlanID = 0\<rparr> = Some exampleManager"
    by (simp add: exampleCallees_def)
  have n: "\<not> list_all (\<lambda>v. exampleManager (visitInfo.db v) (table v) (column v) (privilege v))
               (builder_visitInfo (snd nodeSalesPrice))"
    by (simp add: nodeSalesPrice_def exampleManager_def visitSalesS_def visitSalesPrice_def)
  have c: "checkPrivilege exampleManager (builder_visitInfo (snd nodeSalesPrice)) = False"
    using Optimize_phases_in_order
            [of exampleManager "builder_visitInfo (snd nodeSalesPrice)", THEN conjunct1] n
    by simp
  have d: "Optimize False ?cs nodeSalesPrice exampleWorld =
     (Return None (Some (errors_New ''privilege check fail'')),
      (\<lparr>PlanID = 0\<rparr>, [Call_build]))"
    using Optimize_phases_in_order
            [where pm = exampleManager and cs = ?cs and node = nodeSalesPrice
               and w = exampleWorld and p = "Some (Logical examplePlan)"
               and b = "snd nodeSalesPrice" and ?u1.0 = "\<lparr>PlanID = 0\<rparr>" and allow = False,
             THEN conjunct2, THEN conjunct1] b1 g n
    by (simp add: nodeSalesPrice_def exampleWorld_def)
  have b2: "build ?cs nodeSalesS ((fst exampleWorld)\<lparr>PlanID := 0\<rparr>) =
              ((Some (Logical examplePlan), snd nodeSalesS), \<lparr>PlanID = 0\<rparr>)"
    by (simp add: exampleCallees_def exampleWorld_def nodeSalesS_def)
  have ok: "case GetPrivilegeManager ?cs \<lparr>PlanID = 0\<rparr> of None \<Rightarrow> True
            | Some pm' \<Rightarrow> checkPrivilege pm' [visitSalesS]"
    by (simp add: exampleCallees_def exampleManager_def visitSalesS_def)
  have lo2: "logicalOptimize (optimize ?cs) 137 (Some examplePlan)
               (\<lparr>PlanID = 0\<rparr>, snd exampleWorld @ [Call_build]) =
             ((Some (LogicalOperator ''pushDownTopNOptimizer''
                 [LogicalOperator ''decorrelateSolver''
                   [LogicalOperator ''columnPruner'' [examplePlan]]]), None),
              (\<lparr>PlanID = 3\<rparr>,
               [Call_build, Call_optimize columnPruner, Call_optimize decorrelateSolver,
                Call_optimize pushDownTopNOptimizer]))"
    by (simp add: logicalOptimize_applyInOrder selectedRules_137 exampleCallees_def
          exampleRules_def exampleWorld_def)
  have f: "Optimize False ?cs nodeSalesS exampleWorld =
     (Return (Some (Physical (LogicalOperator ''pushDownTopNOptimizer''
         [LogicalOperator ''decorrelateSolver'' [LogicalOperator ''columnPruner'' [examplePlan]]])))
        None,
      (\<lparr>PlanID = 3\<rparr>,
       [Call_build, Call_optimize columnPruner, Call_optimize decorrelateSolver,
        Call_optimize pushDownTopNOptimizer, Call_preparePossibleProperties, Call_deriveStats,
        Call_findBestTask, Call_ResolveIndices, Call_eliminatePhysicalProjection]))"
    using Optimize_phases_in_order
            [where cs = ?cs and node = nodeSalesS and w = exampleWorld
               and logic = examplePlan and b = "snd nodeSalesS"
               and ?u1.0 = "\<lparr>PlanID = 0\<rparr>" and allow = False
               and lres = "Some (LogicalOperator ''pushDownTopNOptimizer''
                 [LogicalOperator ''decorrelateSolver''
                   [LogicalOperator ''columnPruner'' [examplePlan]]])"
               and eres = None
               and ?w1.0 = "(\<lparr>PlanID = 3\<rparr>,
               [Call_build, Call_optimize columnPruner, Call_optimize decorrelateSolver,
                Call_optimize pushDownTopNOptimizer])",
             THEN conjunct2, THEN conjunct2, THEN conjunct2] b2 ok lo2
    by (simp add: nodeSalesS_def exampleCallees_def examplePlan_def)
  have e: "snd (snd (Optimize False ?cs nodeSalesS exampleWorld)) =
     snd exampleWorld @ [Call_build] @
     map Call_optimize (selectedRules (builder_optFlag (snd nodeSalesS))) @
     [Call_preparePossibleProperties, Call_deriveStats, Call_findBestTask,
      Call_ResolveIndices, Call_eliminatePhysicalProjection]"
    using Optimize_phases_in_order
            [where cs = ?cs and node = nodeSalesS and w = exampleWorld
               and logic = examplePlan and b = "snd nodeSalesS"
               and ?u1.0 = "\<lparr>PlanID = 0\<rparr>" and allow = False
               and fp = "Some (Physical (LogicalOperator ''pushDownTopNOptimizer''
                    [LogicalOperator ''decorrelateSolver''
                      [LogicalOperator ''columnPruner'' [examplePlan]]]))"
               and w' = "snd (Optimize False ?cs nodeSalesS exampleWorld)",
             THEN conjunct2, THEN conjunct2, THEN conjunct1] b2 f
    by simp
  have b3: "build ?cs nodeUnsupported ((fst exampleWorld)\<lparr>PlanID := 0\<rparr>) =
              ((Some (Logical (LogicalOperator ''Unsupported'' [])), snd nodeUnsupported),
               \<lparr>PlanID = 0\<rparr>)"
    by (simp add: exampleCallees_def exampleWorld_def nodeUnsupported_def)
  have lo3: "logicalOptimize (optimize ?cs) 0 (Some (LogicalOperator ''Unsupported'' []))
               (\<lparr>PlanID = 0\<rparr>, snd exampleWorld @ [Call_build]) =
             ((Some (LogicalOperator ''Unsupported'' []), None), (\<lparr>PlanID = 0\<rparr>, [Call_build]))"
    by (simp add: logicalOptimize_def optRuleList_def exampleWorld_def)
  have h: "Optimize False ?cs nodeUnsupported exampleWorld =
     (Return None (Some (ErrInternal noPhysicalPlanMessage)),
      (\<lparr>PlanID = 0\<rparr>,
       [Call_build, Call_preparePossibleProperties, Call_deriveStats, Call_findBestTask]))"
    using Optimize_phases_in_order
            [where cs = ?cs and node = nodeUnsupported and w = exampleWorld
               and logic = "LogicalOperator ''Unsupported'' []" and b = "snd nodeUnsupported"
               and ?u1.0 = "\<lparr>PlanID = 0\<rparr>" and allow = False
               and lres = "Some (LogicalOperator ''Unsupported'' [])" and eres = None
               and ?w1.0 = "(\<lparr>PlanID = 0\<rparr>, [Call_build])",
             THEN conjunct2, THEN conjunct2, THEN conjunct2] b3 ok lo3
    by (simp add: nodeUnsupported_def exampleCallees_def)
  have b4: "build ?cs nodeCartesian ((fst exampleWorld)\<lparr>PlanID := 0\<rparr>) =
              ((Some (Logical (LogicalJoin InnerJoin []
                  [LogicalOperator ''DataSource a'' [], LogicalOperator ''DataSource b'' []])),
                snd nodeCartesian), \<lparr>PlanID = 0\<rparr>)"
    by (simp add: exampleCallees_def exampleWorld_def nodeCartesian_def)
  have lo4: "logicalOptimize (optimize ?cs) 0
               (Some (LogicalJoin InnerJoin []
                  [LogicalOperator ''DataSource a'' [], LogicalOperator ''DataSource b'' []]))
               (\<lparr>PlanID = 0\<rparr>, snd exampleWorld @ [Call_build]) =
             ((Some (LogicalJoin InnerJoin []
                  [LogicalOperator ''DataSource a'' [], LogicalOperator ''DataSource b'' []]),
               None), (\<lparr>PlanID = 0\<rparr>, [Call_build]))"
    by (simp add: logicalOptimize_def optRuleList_def exampleWorld_def)
  have i: "Optimize False ?cs nodeCartesian exampleWorld =
     (Return None (Some ErrCartesianProductUnsupported), (\<lparr>PlanID = 0\<rparr>, [Call_build]))"
    using Optimize_phases_in_order
            [where cs = ?cs and node = nodeCartesian and w = exampleWorld
               and logic = "LogicalJoin InnerJoin []
                  [LogicalOperator ''DataSource a'' [], LogicalOperator ''DataSource b'' []]"
               and b = "snd nodeCartesian"
               and ?u1.0 = "\<lparr>PlanID = 0\<rparr>" and allow = False
               and lres = "Some (LogicalJoin InnerJoin []
                  [LogicalOperator ''DataSource a'' [], LogicalOperator ''DataSource b'' []])"
               and eres = None
               and ?w1.0 = "(\<lparr>PlanID = 0\<rparr>, [Call_build])",
             THEN conjunct2, THEN conjunct2, THEN conjunct2] b4 ok lo4
    by (simp add: nodeCartesian_def exampleCallees_def)
  show ?thesis
    using b1 g c d b2 e f h i
    by (simp add: nodeSalesPrice_def nodeSalesS_def selectedRules_137 exampleWorld_def)
qed

text \<open>
  Claim C7. The claim: when the privilege check fails, the error of \<open>Optimize\<close> reports
  which database, table, column and privilege failed. \<open>checkPrivilege\<close> returns a
  boolean and \<open>Optimize\<close> answers with the fixed error of the message
  \<open>privilege check fail\<close>: two queries refused on records that differ in database,
  column and privilege get the same error.
\<close>

theorem Optimize_privilege_error_names_no_record:
  "\<not> exampleManager (visitInfo.db visitTestT) (table visitTestT) (column visitTestT)
        (privilege visitTestT) \<and>
   \<not> exampleManager (visitInfo.db visitSalesPrice) (table visitSalesPrice)
        (column visitSalesPrice) (privilege visitSalesPrice) \<and>
   visitInfo.db visitTestT \<noteq> visitInfo.db visitSalesPrice \<and>
   column visitTestT \<noteq> column visitSalesPrice \<and>
   privilege visitTestT \<noteq> privilege visitSalesPrice \<and>
   fst (Optimize True (exampleCallees (Some exampleManager) []) nodeTestT exampleWorld) =
     Return None (Some (errors_New ''privilege check fail'')) \<and>
   fst (Optimize True (exampleCallees (Some exampleManager) []) nodeSalesPrice exampleWorld) =
     Return None (Some (errors_New ''privilege check fail''))"
  by (simp add: Optimize_def exampleCallees_def exampleManager_def exampleWorld_def
        nodeTestT_def nodeSalesPrice_def visitTestT_def visitSalesPrice_def visitSalesS_def)

text \<open>
  Claim C7, as amended. When the builder succeeded, a privilege manager is there and the
  privilege check fails, \<open>Optimize\<close> returns no plan and the error made from the
  message \<open>privilege check fail\<close>, whatever the refused record is, having called only
  \<open>build\<close>.
\<close>

theorem Optimize_privilege_failure_is_generic:
  "build cs node ((fst w)\<lparr>PlanID := 0\<rparr>) = ((p, b), u1) \<and>
   builder_err b = None \<and>
   GetPrivilegeManager cs u1 = Some pm \<and>
   \<not> checkPrivilege pm (builder_visitInfo b) \<longrightarrow>
     Optimize allow cs node w =
       (Return None (Some (errors_New ''privilege check fail'')), (u1, snd w @ [Call_build]))"
  using Optimize_privilege_denied [of cs node w p b u1 pm allow] by blast

theorem Optimize_privilege_failure_is_generic_witness:
  "build (exampleCallees (Some exampleManager) []) nodeTestT
       ((fst exampleWorld)\<lparr>PlanID := 0\<rparr>) = (nodeTestT, \<lparr>PlanID = 0\<rparr>) \<and>
   builder_err (snd nodeTestT) = None \<and>
   GetPrivilegeManager (exampleCallees (Some exampleManager) []) \<lparr>PlanID = 0\<rparr> =
     Some exampleManager \<and>
   checkPrivilege exampleManager (builder_visitInfo (snd nodeTestT)) = False \<and>
   Optimize False (exampleCallees (Some exampleManager) []) nodeTestT exampleWorld =
     (Return None (Some (errors_New ''privilege check fail'')),
      (\<lparr>PlanID = 0\<rparr>, [Call_build]))"
proof -
  let ?cs = "exampleCallees (Some exampleManager) []"
  have b1: "build ?cs nodeTestT ((fst exampleWorld)\<lparr>PlanID := 0\<rparr>) =
              ((fst nodeTestT, snd nodeTestT), \<lparr>PlanID = 0\<rparr>)"
    by (simp add: exampleCallees_def exampleWorld_def)
  have e: "builder_err (snd nodeTestT) = None" by (simp add: nodeTestT_def)
  have g: "GetPrivilegeManager ?cs \<lparr>PlanID = 0\<rparr> = Some exampleManager"
    by (simp add: exampleCallees_def)
  have n: "\<not> checkPrivilege exampleManager (builder_visitInfo (snd nodeTestT))"
    by (simp add: nodeTestT_def exampleManager_def visitTestT_def)
  have d: "Optimize False ?cs nodeTestT exampleWorld =
     (Return None (Some (errors_New ''privilege check fail'')),
      (\<lparr>PlanID = 0\<rparr>, snd exampleWorld @ [Call_build]))"
    using Optimize_privilege_failure_is_generic [of ?cs nodeTestT exampleWorld "fst nodeTestT" "snd nodeTestT"
                         "\<lparr>PlanID = 0\<rparr>" exampleManager False] b1 e g n
    by blast
  show ?thesis using b1 e g n d by (simp add: exampleWorld_def)
qed

text \<open>
  Claim C8. \<open>BuildLogicalPlan\<close> returns the plan of the builder as it is, or no plan and
  the builder's error when the builder has one; the only call it makes is \<open>build\<close>.
\<close>

theorem BuildLogicalPlan_returns_builder_plan:
  "build cs node ((fst w)\<lparr>PlanID := 0\<rparr>) = ((p, b), u1) \<longrightarrow>
   BuildLogicalPlan cs node w =
     ((if builder_err b = None then Return p None else Return None (builder_err b)),
      (u1, snd w @ [Call_build]))"
  by (simp add: BuildLogicalPlan_def)

theorem BuildLogicalPlan_returns_builder_plan_witness:
  "build (exampleCallees (Some exampleManager) []) nodeTestT ((fst exampleWorld)\<lparr>PlanID := 0\<rparr>) =
     (nodeTestT, \<lparr>PlanID = 0\<rparr>) \<and>
   BuildLogicalPlan (exampleCallees (Some exampleManager) []) nodeTestT exampleWorld =
     (Return (Some (Logical examplePlan)) None, (\<lparr>PlanID = 0\<rparr>, [Call_build])) \<and>
   BuildLogicalPlan (exampleCallees (Some exampleManager) []) nodeBroken exampleWorld =
     (Return None (Some (External ''unknown column'')), (\<lparr>PlanID = 0\<rparr>, [Call_build]))"
proof -
  have a: "build (exampleCallees (Some exampleManager) []) nodeTestT
             ((fst exampleWorld)\<lparr>PlanID := 0\<rparr>) =
           ((Some (Logical examplePlan), snd nodeTestT), \<lparr>PlanID = 0\<rparr>)"
    by (simp add: exampleCallees_def exampleWorld_def nodeTestT_def)
  have b: "build (exampleCallees (Some exampleManager) []) nodeBroken
             ((fst exampleWorld)\<lparr>PlanID := 0\<rparr>) =
           ((None, snd nodeBroken), \<lparr>PlanID = 0\<rparr>)"
    by (simp add: exampleCallees_def exampleWorld_def nodeBroken_def)
  from BuildLogicalPlan_returns_builder_plan [of "exampleCallees (Some exampleManager) []" nodeTestT exampleWorld
              "Some (Logical examplePlan)" "snd nodeTestT" "\<lparr>PlanID = 0\<rparr>"] a
  have one: "BuildLogicalPlan (exampleCallees (Some exampleManager) []) nodeTestT exampleWorld =
     (Return (Some (Logical examplePlan)) None, (\<lparr>PlanID = 0\<rparr>, [Call_build]))"
    by (simp add: nodeTestT_def exampleWorld_def)
  from BuildLogicalPlan_returns_builder_plan [of "exampleCallees (Some exampleManager) []" nodeBroken exampleWorld
              None "snd nodeBroken" "\<lparr>PlanID = 0\<rparr>"] b
  have two: "BuildLogicalPlan (exampleCallees (Some exampleManager) []) nodeBroken exampleWorld =
     (Return None (Some (External ''unknown column'')), (\<lparr>PlanID = 0\<rparr>, [Call_build]))"
    by (simp add: nodeBroken_def exampleWorld_def)
  show ?thesis using a one two by (simp add: nodeTestT_def)
qed

section \<open>The memory buffer and the buffer store\<close>

text \<open>
  Claim C9. \<open>Set\<close> with a value of length zero returns \<open>ErrCannotSetNilValue\<close> and the
  buffer as it was; \<open>Delete\<close> is one \<open>Put\<close> of the key with the \<open>nil\<close> value.
\<close>

theorem memDbBuffer_Set_rejects_empty_value:
  "(length v = 0 \<longrightarrow> memDbBuffer_Set lib m k v = (Some ErrCannotSetNilValue, m)) \<and>
   memDbBuffer_Delete lib m k =
     (map_option kv_External (fst (db_Put lib (memDbBuffer.db m) k [])),
      m\<lparr>memDbBuffer.db := snd (db_Put lib (memDbBuffer.db m) k [])\<rparr>)"
  by (simp add: memDbBuffer_Set_def memDbBuffer_Delete_def split: prod.splits)

theorem memDbBuffer_Set_rejects_empty_value_witness:
  "length ([] :: bytes) = 0 \<and>
   memDbBuffer_Set exampleDb exampleBuffer [1] [] = (Some ErrCannotSetNilValue, exampleBuffer) \<and>
   memDbBuffer_Delete exampleDb exampleBuffer [1] =
     (None, exampleBuffer\<lparr>memDbBuffer.db := [([1], [])]\<rparr>) \<and>
   memDbBuffer_Get exampleDb (snd (memDbBuffer_Delete exampleDb exampleBuffer [1])) [1] =
     ([], None)"
proof -
  have a: "memDbBuffer_Set exampleDb exampleBuffer [1] [] =
             (Some ErrCannotSetNilValue, exampleBuffer)"
    using memDbBuffer_Set_rejects_empty_value [of "[]" exampleDb exampleBuffer "[1]", THEN conjunct1] by simp
  have b: "memDbBuffer_Delete exampleDb exampleBuffer [1] =
     (None, exampleBuffer\<lparr>memDbBuffer.db := [([1], [])]\<rparr>)"
    using memDbBuffer_Set_rejects_empty_value [of "[]" exampleDb exampleBuffer "[1]", THEN conjunct2]
    by (simp add: exampleDb_def exampleBuffer_def)
  show ?thesis using a b by (simp add: memDbBuffer_Get_def exampleDb_def)
qed

text \<open>
  Claim C10. \<open>BufferStore.Get\<close> calls \<open>Get\<close> of the buffer first, and \<open>Get\<close> of the
  retriever after it exactly when the buffer's error is not-found. When it returns
  without error, the value is not empty and is the one found (in the retriever after a
  not-found, else in the buffer). When the value found comes without error and has length
  zero, it returns no value and \<open>ErrNotExist\<close>. In every case the result is: the error
  that came with the value found, and no value; else \<open>ErrNotExist\<close> and no value when
  the value found has length zero; else the value found, without error.
\<close>

theorem BufferStore_Get_buffer_first:
  "snd (BufferStore_Get ms s k log) =
     log @ Call_MemBuffer_Get k #
       (if IsErrNotFound ms (snd (MemBuffer_Get ms (MemBuffer s) k))
        then [Call_Retriever_Get k] else []) \<and>
   (snd (fst (BufferStore_Get ms s k log)) = None \<longrightarrow>
      fst (fst (BufferStore_Get ms s k log)) \<noteq> [] \<and>
      fst (BufferStore_Get ms s k log) =
        (if IsErrNotFound ms (snd (MemBuffer_Get ms (MemBuffer s) k))
         then Retriever_Get ms (r s) k else MemBuffer_Get ms (MemBuffer s) k)) \<and>
   (snd (if IsErrNotFound ms (snd (MemBuffer_Get ms (MemBuffer s) k))
         then Retriever_Get ms (r s) k else MemBuffer_Get ms (MemBuffer s) k) = None \<and>
    length (fst (if IsErrNotFound ms (snd (MemBuffer_Get ms (MemBuffer s) k))
                 then Retriever_Get ms (r s) k else MemBuffer_Get ms (MemBuffer s) k)) = 0 \<longrightarrow>
      fst (BufferStore_Get ms s k log) = ([], Some ErrNotExist)) \<and>
   fst (BufferStore_Get ms s k log) =
     (case (if IsErrNotFound ms (snd (MemBuffer_Get ms (MemBuffer s) k))
            then Retriever_Get ms (r s) k else MemBuffer_Get ms (MemBuffer s) k) of
        (val, Some e) \<Rightarrow> ([], Some e)
      | (val, None) \<Rightarrow> if length val = 0 then ([], Some ErrNotExist) else (val, None))"
  by (auto simp add: BufferStore_Get_def split: prod.splits if_splits option.splits)

theorem BufferStore_Get_buffer_first_witness:
  "BufferStore_Get exampleMethods exampleStore [2] [] =
     (([20], None), [Call_MemBuffer_Get [2], Call_Retriever_Get [2]]) \<and>
   MemBuffer_Get exampleMethods (MemBuffer exampleStore) [1] = ([], None) \<and>
   BufferStore_Get exampleMethods exampleStore [1] [] =
     (([], Some ErrNotExist), [Call_MemBuffer_Get [1]]) \<and>
   MemBuffer_Get exampleMethods (MemBuffer exampleStoreLive) [1] = ([10], None) \<and>
   Retriever_Get exampleMethods (r exampleStoreLive) [1] = ([99], None) \<and>
   BufferStore_Get exampleMethods exampleStoreLive [1] [] =
     (([10], None), [Call_MemBuffer_Get [1]]) \<and>
   BufferStore_Get exampleMethods exampleStoreLive [3] [] =
     (([], Some ErrNotExist), [Call_MemBuffer_Get [3], Call_Retriever_Get [3]])"
proof -
  have g1: "MemBuffer_Get exampleMethods (MemBuffer exampleStore) [1] = ([], None)"
    by (simp add: exampleMethods_def exampleStore_def memDbBuffer_Get_def
          memDbBuffer_Delete_def exampleDb_def exampleBuffer_def)
  have g2: "MemBuffer_Get exampleMethods (MemBuffer exampleStore) [2] = ([], Some ErrNotExist)"
    by (simp add: exampleMethods_def exampleStore_def memDbBuffer_Get_def
          memDbBuffer_Delete_def exampleDb_def exampleBuffer_def)
  have n: "IsErrNotFound exampleMethods (Some ErrNotExist)" "\<not> IsErrNotFound exampleMethods None"
    by (simp_all add: exampleMethods_def)
  have r2: "Retriever_Get exampleMethods (r exampleStore) [2] = ([20], None)"
    by (simp add: exampleMethods_def exampleStore_def)
  have l1: "snd (BufferStore_Get exampleMethods exampleStore [1] []) = [Call_MemBuffer_Get [1]]"
    using BufferStore_Get_buffer_first [of exampleMethods exampleStore "[1]" "[]", THEN conjunct1]
      g1 n by simp
  have v1: "fst (BufferStore_Get exampleMethods exampleStore [1] []) = ([], Some ErrNotExist)"
    using BufferStore_Get_buffer_first
            [of exampleMethods exampleStore "[1]" "[]",
             THEN conjunct2, THEN conjunct2, THEN conjunct1] g1 n
    by simp
  have l2: "snd (BufferStore_Get exampleMethods exampleStore [2] []) =
              [Call_MemBuffer_Get [2], Call_Retriever_Get [2]]"
    using BufferStore_Get_buffer_first [of exampleMethods exampleStore "[2]" "[]", THEN conjunct1]
      g2 n by simp
  have v2: "fst (BufferStore_Get exampleMethods exampleStore [2] []) = ([20], None)"
    using BufferStore_Get_buffer_first
            [of exampleMethods exampleStore "[2]" "[]",
             THEN conjunct2, THEN conjunct2, THEN conjunct2] g2 n r2
    by simp
  have g3: "MemBuffer_Get exampleMethods (MemBuffer exampleStoreLive) [1] = ([10], None)"
    by (simp add: exampleMethods_def exampleStoreLive_def memDbBuffer_Get_def
          exampleDb_def exampleBuffer_def)
  have r3: "Retriever_Get exampleMethods (r exampleStoreLive) [1] = ([99], None)"
    by (simp add: exampleMethods_def exampleStoreLive_def)
  have l3: "snd (BufferStore_Get exampleMethods exampleStoreLive [1] []) =
              [Call_MemBuffer_Get [1]]"
    using BufferStore_Get_buffer_first
            [of exampleMethods exampleStoreLive "[1]" "[]", THEN conjunct1] g3 n by simp
  have v3: "fst (BufferStore_Get exampleMethods exampleStoreLive [1] []) = ([10], None)"
    using BufferStore_Get_buffer_first
            [of exampleMethods exampleStoreLive "[1]" "[]",
             THEN conjunct2, THEN conjunct2, THEN conjunct2] g3 n
    by simp
  have g4: "MemBuffer_Get exampleMethods (MemBuffer exampleStoreLive) [3] =
              ([], Some ErrNotExist)"
    by (simp add: exampleMethods_def exampleStoreLive_def memDbBuffer_Get_def
          exampleDb_def exampleBuffer_def)
  have r4: "Retriever_Get exampleMethods (r exampleStoreLive) [3] = ([], Some ErrNotExist)"
    by (simp add: exampleMethods_def exampleStoreLive_def)
  have l4: "snd (BufferStore_Get exampleMethods exampleStoreLive [3] []) =
              [Call_MemBuffer_Get [3], Call_Retriever_Get [3]]"
    using BufferStore_Get_buffer_first
            [of exampleMethods exampleStoreLive "[3]" "[]", THEN conjunct1] g4 n by simp
  have v4: "fst (BufferStore_Get exampleMethods exampleStoreLive [3] []) =
              ([], Some ErrNotExist)"
    using BufferStore_Get_buffer_first
            [of exampleMethods exampleStoreLive "[3]" "[]",
             THEN conjunct2, THEN conjunct2, THEN conjunct2] g4 r4 n
    by simp
  show ?thesis using g1 l1 v1 l2 v2 g3 r3 l3 v3 l4 v4 by (simp add: prod_eq_iff)
qed

end
